theory Spec2Isabelle
  imports Complex_Main
begin

section \<open>Python values used by the library\<close>

text \<open>
  The exceptions that the modelled functions can raise.  The library raises
  \<open>ValueError\<close> for an invalid name, \<open>KeyError\<close> for a missing resource or animation and
  \<open>IOError\<close> for a failed load; the others come from the Python runtime (an attribute that
  does not exist, a modulo by zero, a list index out of range, a local variable read
  before it is assigned, the conversion of an infinite float or of too large an integer,
  and \<open>re.error\<close>, here \<open>RegexError\<close>, for a pattern that does not compile).
\<close>

datatype py_error =
  ValueError | KeyError | IOError | AttributeError | ZeroDivisionError | IndexError
  | UnboundLocalError | OverflowError | RegexError


subsection \<open>Floats\<close>

text \<open>
  A Python float is an IEEE 754 double.  \<open>Float s m e\<close> is the finite number
  \<open>m * 2 ^ e\<close> with a mantissa \<open>m\<close> that is not negative, negated when \<open>s\<close> holds; the
  sign is kept on a zero, so \<open>Float True 0 0\<close> is \<open>-0.0\<close>.  \<open>Infinity s\<close> is \<open>inf\<close>, or
  \<open>-inf\<close> when \<open>s\<close> holds, and \<open>NaN\<close> is \<open>nan\<close>.
\<close>

datatype pyfloat = Float bool int int | Infinity bool | NaN

text \<open>The number of binary digits of a positive integer (\<open>int.bit_length\<close>).\<close>

function bit_length :: "int \<Rightarrow> int" where
  "bit_length n = (if n \<le> 0 then 0 else 1 + bit_length (n div 2))"
  by pat_completeness auto

termination
  by (relation "measure nat") auto

declare bit_length.simps [simp del]

text \<open>For positive \<open>p\<close> and \<open>q\<close>, the integer \<open>k\<close> with \<open>2 ^ k \<le> p / q < 2 ^ (k + 1)\<close>.\<close>

definition floor_log2 :: "int \<Rightarrow> int \<Rightarrow> int" where
  "floor_log2 p q =
     (let d = bit_length p - bit_length q
      in if q * 2 ^ nat d \<le> p * 2 ^ nat (- d) then d else d - 1)"

text \<open>The integer nearest to \<open>num / den\<close>, the even one of the two when both are
  equally near.\<close>

definition round_half_even :: "int \<Rightarrow> int \<Rightarrow> int" where
  "round_half_even num den =
     (let n = num div den; r = num mod den
      in if 2 * r < den then n
         else if den < 2 * r then n + 1
         else if even n then n else n + 1)"

text \<open>
  The double nearest to \<open>p / q * 2 ^ e\<close> (for \<open>p \<ge> 0\<close> and \<open>q > 0\<close>), with sign \<open>s\<close>:
  the rounding of every arithmetic operation of IEEE 754, to nearest with ties to even.
  A double has 53 binary digits; below \<open>2 ^ - 1022\<close> the spacing stays at
  \<open>2 ^ - 1074\<close> (subnormal numbers, down to zero), and a result of \<open>2 ^ 1024\<close> or more is
  infinite.  A finite result that is not zero has its mantissa between \<open>2 ^ 52\<close> and
  \<open>2 ^ 53\<close>, or its exponent at \<open>- 1074\<close>.
\<close>

definition round_ratio :: "bool \<Rightarrow> int \<Rightarrow> int \<Rightarrow> int \<Rightarrow> pyfloat" where
  "round_ratio s p q e =
     (if p = 0 then Float s 0 0
      else
        let E = floor_log2 p q + e;
            Q = max (E - 52) (- 1074);
            N = round_half_even (p * 2 ^ nat (e - Q)) (q * 2 ^ nat (Q - e))
        in if N = 0 then Float s 0 0
           else if N = 2 ^ 53 then
             (if 971 < Q + 1 then Infinity s else Float s (2 ^ 52) (Q + 1))
           else if 971 < Q then Infinity s
           else Float s N Q)"

text \<open>The float that Python reads from a decimal literal of value \<open>n / d\<close>: \<open>0.35\<close> is
  \<open>float_literal 35 100\<close> and \<open>10.0\<close> is \<open>float_literal 10 1\<close>.\<close>

definition float_literal :: "int \<Rightarrow> int \<Rightarrow> pyfloat" where
  "float_literal n d = round_ratio (n < 0) \<bar>n\<bar> d 0"

text \<open>\<open>-x\<close> changes the sign, also of a zero.\<close>

definition float_neg :: "pyfloat \<Rightarrow> pyfloat" where
  "float_neg x =
     (case x of
        Float s m e \<Rightarrow> Float (\<not> s) m e
      | Infinity s \<Rightarrow> Infinity (\<not> s)
      | NaN \<Rightarrow> NaN)"

text \<open>\<open>x * y\<close>: the exact product, rounded; infinity times zero is \<open>nan\<close>.\<close>

definition float_mul :: "pyfloat \<Rightarrow> pyfloat \<Rightarrow> pyfloat" where
  "float_mul x y =
     (case x of
        NaN \<Rightarrow> NaN
      | Infinity sx \<Rightarrow>
          (case y of
             NaN \<Rightarrow> NaN
           | Infinity sy \<Rightarrow> Infinity (sx \<noteq> sy)
           | Float sy my ey \<Rightarrow> if my = 0 then NaN else Infinity (sx \<noteq> sy))
      | Float sx mx ex \<Rightarrow>
          (case y of
             NaN \<Rightarrow> NaN
           | Infinity sy \<Rightarrow> if mx = 0 then NaN else Infinity (sx \<noteq> sy)
           | Float sy my ey \<Rightarrow> round_ratio (sx \<noteq> sy) (mx * my) 1 (ex + ey)))"

text \<open>\<open>x / y\<close>: Python raises \<open>ZeroDivisionError\<close> for a zero divisor, whatever the
  dividend; otherwise the exact quotient, rounded.\<close>

definition float_div :: "pyfloat \<Rightarrow> pyfloat \<Rightarrow> py_error + pyfloat" where
  "float_div x y =
     (case y of
        NaN \<Rightarrow> Inr NaN
      | Infinity sy \<Rightarrow>
          (case x of
             NaN \<Rightarrow> Inr NaN
           | Infinity sx \<Rightarrow> Inr NaN
           | Float sx mx ex \<Rightarrow> Inr (Float (sx \<noteq> sy) 0 0))
      | Float sy my ey \<Rightarrow>
          if my = 0 then Inl ZeroDivisionError
          else
            (case x of
               NaN \<Rightarrow> Inr NaN
             | Infinity sx \<Rightarrow> Inr (Infinity (sx \<noteq> sy))
             | Float sx mx ex \<Rightarrow> Inr (round_ratio (sx \<noteq> sy) mx my (ex - ey))))"

text \<open>The conversion of an \<open>int\<close> that takes part in float arithmetic: the nearest
  double, and \<open>OverflowError\<close> when that would be infinite.\<close>

definition float_of_int :: "int \<Rightarrow> py_error + pyfloat" where
  "float_of_int v =
     (let x = round_ratio (v < 0) \<bar>v\<bar> 1 0
      in if x = Infinity (v < 0) then Inl OverflowError else Inr x)"

text \<open>\<open>x == 0\<close> holds for both zeros.\<close>

definition float_is_zero :: "pyfloat \<Rightarrow> bool" where
  "float_is_zero x = (case x of Float s m e \<Rightarrow> m = 0 | Infinity s \<Rightarrow> False | NaN \<Rightarrow> False)"

text \<open>\<open>x < y\<close>: two finite numbers are compared at their smaller exponent; a comparison
  with \<open>nan\<close> is false.\<close>

definition float_less :: "pyfloat \<Rightarrow> pyfloat \<Rightarrow> bool" where
  "float_less x y =
     (case x of
        NaN \<Rightarrow> False
      | Infinity sx \<Rightarrow>
          (case y of NaN \<Rightarrow> False | Infinity sy \<Rightarrow> sx \<and> \<not> sy | Float sy my ey \<Rightarrow> sx)
      | Float sx mx ex \<Rightarrow>
          (case y of
             NaN \<Rightarrow> False
           | Infinity sy \<Rightarrow> \<not> sy
           | Float sy my ey \<Rightarrow>
               (if sx then - mx else mx) * 2 ^ nat (ex - min ex ey)
                 < (if sy then - my else my) * 2 ^ nat (ey - min ex ey)))"

text \<open>The real number that a finite float stands for.\<close>

definition float_value :: "bool \<Rightarrow> int \<Rightarrow> int \<Rightarrow> real" where
  "float_value s m e =
     (if s then - 1 else 1) * of_int m * (if 0 \<le> e then 2 ^ nat e else 1 / 2 ^ nat (- e))"

text \<open>\<open>int(x)\<close> on a float truncates toward zero: the digits of the mantissa below the
  binary point are dropped, and the sign is put back.  It raises \<open>ValueError\<close> on \<open>nan\<close>
  and \<open>OverflowError\<close> on an infinity.\<close>

definition float_trunc :: "bool \<Rightarrow> int \<Rightarrow> int \<Rightarrow> int" where
  "float_trunc s m e =
     (if s then - 1 else 1) * (if 0 \<le> e then m * 2 ^ nat e else m div 2 ^ nat (- e))"

definition py_int_float :: "pyfloat \<Rightarrow> py_error + int" where
  "py_int_float x =
     (case x of
        NaN \<Rightarrow> Inl ValueError
      | Infinity s \<Rightarrow> Inl OverflowError
      | Float s m e \<Rightarrow> Inr (float_trunc s m e))"


subsection \<open>Strings and integers\<close>

text \<open>Strings are ASCII strings; \<open>str.lower\<close>, \<open>str.strip\<close> and the character classes
  of the regular expressions act on ASCII characters.\<close>

definition py_lower_char :: "char \<Rightarrow> char" where
  "py_lower_char c =
     (case map_of (zip ''ABCDEFGHIJKLMNOPQRSTUVWXYZ'' ''abcdefghijklmnopqrstuvwxyz'') c of
        Some d \<Rightarrow> d
      | None \<Rightarrow> c)"

definition py_lower :: "string \<Rightarrow> string" where
  "py_lower s = map py_lower_char s"

definition py_isspace :: "char \<Rightarrow> bool" where
  "py_isspace c \<longleftrightarrow>
     c \<in> set [CHR 0x09, CHR 0x0A, CHR 0x0B, CHR 0x0C, CHR 0x0D,
               CHR 0x1C, CHR 0x1D, CHR 0x1E, CHR 0x1F, CHR 0x20]"

definition py_strip :: "string \<Rightarrow> string" where
  "py_strip s = rev (dropWhile py_isspace (rev (dropWhile py_isspace s)))"

definition is_az :: "char \<Rightarrow> bool" where
  "is_az c \<longleftrightarrow> c \<in> set ''abcdefghijklmnopqrstuvwxyz''"

definition is_digit :: "char \<Rightarrow> bool" where
  "is_digit c \<longleftrightarrow> c \<in> set ''0123456789''"

definition digit_value :: "char \<Rightarrow> int" where
  "digit_value c =
     (case map_of (zip ''0123456789'' [0, 1, 2, 3, 4, 5, 6, 7, 8, 9]) c of
        Some d \<Rightarrow> d
      | None \<Rightarrow> 0)"

text \<open>
  \<open>int(s)\<close> on a string: the whitespace that \<open>int\<close> drops around the number is the
  ASCII whitespace of C (tab to carriage return, and space), a smaller set than that of
  \<open>str.strip\<close>; one sign is allowed, then decimal digits, where single underscores may
  separate digits.  A string with more than 4300 digits is refused (the limit that the
  interpreter sets on the conversion).  \<open>None\<close> stands for the \<open>ValueError\<close> that \<open>int\<close>
  raises.
\<close>

definition int_isspace :: "char \<Rightarrow> bool" where
  "int_isspace c \<longleftrightarrow>
     c \<in> set [CHR 0x09, CHR 0x0A, CHR 0x0B, CHR 0x0C, CHR 0x0D, CHR 0x20]"

fun parse_digits :: "string \<Rightarrow> bool \<Rightarrow> int \<Rightarrow> int option" where
  "parse_digits [] prev acc = (if prev then Some acc else None)"
| "parse_digits (c # cs) prev acc =
     (if is_digit c then parse_digits cs True (acc * 10 + digit_value c)
      else if c = CHR ''_'' \<and> prev then parse_digits cs False acc
      else None)"

definition py_int_str :: "string \<Rightarrow> int option" where
  "py_int_str s =
     (case rev (dropWhile int_isspace (rev (dropWhile int_isspace s))) of
        [] \<Rightarrow> None
      | c # cs \<Rightarrow>
          if 4300 < length (filter is_digit (c # cs)) then None
          else if c = CHR ''-'' then map_option uminus (parse_digits cs False 0)
          else if c = CHR ''+'' then parse_digits cs False 0
          else parse_digits (c # cs) False 0)"


text \<open>List indexing \<open>xs[i]\<close>: a negative index counts from the end, and an index outside
  the list raises \<open>IndexError\<close> (here \<open>None\<close>).\<close>

definition py_index :: "'a list \<Rightarrow> int \<Rightarrow> 'a option" where
  "py_index xs i =
     (let n = int (length xs); j = (if i < 0 then i + n else i)
      in if 0 \<le> j \<and> j < n then Some (xs ! nat j) else None)"

text \<open>
  \<open>re.match\<close> anchors a pattern at the start of the string only, so a name matches as soon
  as one of its prefixes does.  For \<open>[a-z][0-9a-z]*\<close> that is a first character in
  \<open>a-z\<close>; for \<open>[a-z][0-9a-z]+\<close> a first character in \<open>a-z\<close> and a second one in
  \<open>0-9a-z\<close>.
\<close>

definition re_match_resource_name :: "string \<Rightarrow> bool" where
  "re_match_resource_name key = (case key of [] \<Rightarrow> False | c # _ \<Rightarrow> is_az c)"

definition re_match_animation_name :: "string \<Rightarrow> bool" where
  "re_match_animation_name key =
     (case key of
        c # d # _ \<Rightarrow> is_az c \<and> (is_digit d \<or> is_az d)
      | _ \<Rightarrow> False)"




section \<open>Animation\<close>

record animation =
  rate :: pyfloat
  loop :: string
  frames :: "int list"

text \<open>
  \<open>Animation.get_frame\<close>.  The local variable \<open>index\<close> is \<open>int(time * rate)\<close>, the
  truncated float product, and the conversion raises when the product is not finite.
  The index is clamped by \<open>min\<close> for loop mode \<open>none\<close>, reduced modulo the number of
  frames for loop mode \<open>loop\<close> (a modulo by zero raises), and left alone for any other
  loop string.  The function returns \<open>index + 1\<close>; the entries of \<open>frames\<close> are never
  read.
\<close>

definition get_frame :: "animation \<Rightarrow> pyfloat \<Rightarrow> py_error + int" where
  "get_frame a time =
     (case py_int_float (float_mul time (rate a)) of
        Inl e \<Rightarrow> Inl e
      | Inr index \<Rightarrow>
          let n = int (length (frames a))
          in if loop a = ''none'' then Inr (min index n + 1)
             else if loop a = ''loop'' then
               (if n = 0 then Inl ZeroDivisionError else Inr (index mod n + 1))
             else Inr (index + 1))"


section \<open>Image and tile geometry\<close>

text \<open>\<open>SDL_Rect\<close> is a structure of four C \<open>int\<close> fields.  A Python integer stored
  in such a field is reduced modulo \<open>2 ^ 32\<close> to the range from \<open>- 2 ^ 31\<close> to
  \<open>2 ^ 31 - 1\<close>; nothing is raised.  The record holds the values that the fields then
  have.\<close>

definition c_int :: "int \<Rightarrow> int" where
  "c_int v = (v + 2147483648) mod 4294967296 - 2147483648"

record rect =
  rect_x :: int
  rect_y :: int
  rect_w :: int
  rect_h :: int

definition SDL_Rect :: "int \<Rightarrow> int \<Rightarrow> int \<Rightarrow> int \<Rightarrow> rect" where
  "SDL_Rect x y w h = \<lparr>rect_x = c_int x, rect_y = c_int y, rect_w = c_int w, rect_h = c_int h\<rparr>"

text \<open>An \<open>Image\<close>; the texture handle plays no part in the geometry and is left out.
  The dictionary of animations is a list of entries with distinct keys, read with
  \<open>map_of\<close>.\<close>

record image =
  width :: int
  height :: int
  tile_width :: int
  tile_height :: int
  tile_margin :: int
  tile_spacing :: int
  animations :: "(string \<times> animation) list"

text \<open>A reference handed to \<open>get_source_rect\<close> is a Python \<open>int\<close> (the recursive call
  passes one) or a \<open>str\<close> (what the drawing calls pass).\<close>

datatype reference = RInt int | RStr string

text \<open>\<open>int(animation)\<close> on a reference; \<open>None\<close> stands for \<open>ValueError\<close>.\<close>

definition py_int :: "reference \<Rightarrow> int option" where
  "py_int ref = (case ref of RInt n \<Rightarrow> Some n | RStr s \<Rightarrow> py_int_str s)"

text \<open>The branch of \<open>get_source_rect\<close> taken once \<open>int(animation)\<close> has produced
  \<open>frame\<close>.  Both \<open>//\<close> and \<open>%\<close> raise on a zero divisor.\<close>

definition tile_rect :: "image \<Rightarrow> int \<Rightarrow> py_error + rect" where
  "tile_rect img frame0 =
     (if frame0 = 0 then Inr (SDL_Rect 0 0 (width img) (height img))
      else
        let frame = frame0 - 1;
            margin = tile_margin img;
            tile_w = tile_width img;
            tile_h = tile_height img;
            cell_w = tile_w + tile_spacing img;
            cell_h = tile_h + tile_spacing img
        in if tile_w = 0 then Inl ZeroDivisionError
           else
             let cols = (width img - margin * 2) div tile_w
             in if cols = 0 then Inl ZeroDivisionError
                else Inr (SDL_Rect (margin + (frame mod cols) * cell_w)
                                   (margin + (frame div cols) * cell_h)
                                   tile_w
                                   tile_h))"

text \<open>
  \<open>Image.get_source_rect\<close>.  When \<open>int(animation)\<close> raises \<open>ValueError\<close> the reference
  is an animation name: it is stripped, lowercased and matched with \<open>re.match\<close> against
  \<open>[a-z][0-9a-z]+\<close>; a missing dictionary entry is re-raised as \<open>KeyError\<close>; otherwise the
  frame of the animation goes through the integer branch, and an exception of
  \<open>get_frame\<close> leaves the handler as it is.
\<close>

fun get_source_rect :: "image \<Rightarrow> reference \<Rightarrow> pyfloat \<Rightarrow> py_error + rect" where
  "get_source_rect img (RInt n) time = tile_rect img n"
| "get_source_rect img (RStr s) time =
     (case py_int_str s of
        Some n \<Rightarrow> tile_rect img n
      | None \<Rightarrow>
          let animation = py_strip s;
              key = py_lower animation
          in if \<not> re_match_animation_name key then Inl ValueError
             else
               (case map_of (animations img) key of
                  None \<Rightarrow> Inl KeyError
                | Some a \<Rightarrow>
                    (case get_frame a time of
                       Inl e \<Rightarrow> Inl e
                     | Inr f \<Rightarrow> tile_rect img f)))"


section \<open>Tile description of an image\<close>

text \<open>
  The helper \<open>getint\<close> of \<open>load_tile_desc\<close>: the value of an option, or the default
  when the option is missing, is read with \<open>int\<close> and must lie between \<open>min\<close> and
  \<open>max\<close>; the function raises \<open>IOError\<close> otherwise.  The section is taken to
  exist.
\<close>

definition getint :: "string option \<Rightarrow> int \<Rightarrow> int \<Rightarrow> int \<Rightarrow> py_error + int" where
  "getint given fallback lo hi =
     (case (case given of None \<Rightarrow> Some fallback | Some v \<Rightarrow> py_int_str v) of
        None \<Rightarrow> Inl IOError
      | Some i \<Rightarrow> if i < lo \<or> i > hi then Inl IOError else Inr i)"

text \<open>The four options of the \<open>.meta\<close> section as the file gives them, and the four
  calls of \<open>getint\<close> that turn them into the tile geometry (margin, tile width, tile
  height, spacing) of an image of the given width and height.\<close>

record tile_options =
  opt_tile_margin :: "string option"
  opt_tile_width :: "string option"
  opt_tile_height :: "string option"
  opt_tile_spacing :: "string option"

definition tile_geometry :: "int \<Rightarrow> int \<Rightarrow> tile_options \<Rightarrow> py_error + int \<times> int \<times> int \<times> int" where
  "tile_geometry w h opts =
     (let shortest = min w h
      in case getint (opt_tile_margin opts) 0 0 (shortest div 2 - (1 - shortest mod 2)) of
           Inl e \<Rightarrow> Inl e
         | Inr margin \<Rightarrow>
             (case getint (opt_tile_width opts) w 1 (w - margin * 2) of
                Inl e \<Rightarrow> Inl e
              | Inr tile_w \<Rightarrow>
                  (case getint (opt_tile_height opts) h 1 (h - margin * 2) of
                     Inl e \<Rightarrow> Inl e
                   | Inr tile_h \<Rightarrow>
                       (case getint (opt_tile_spacing opts) 0 0 (w - margin * 2 - tile_w) of
                          Inl e \<Rightarrow> Inl e
                        | Inr spacing \<Rightarrow> Inr (margin, tile_w, tile_h, spacing)))))"


section \<open>Tile map\<close>

text \<open>A \<open>TileMap\<close>; its \<open>width\<close> and \<open>height\<close> attributes are named \<open>grid_width\<close> and
  \<open>grid_height\<close> here, apart from those of an image.\<close>

record tilemap =
  tileset :: string
  grid_width :: int
  grid_height :: int
  rows :: "string list list"

definition TileMap_get :: "tilemap \<Rightarrow> int \<Rightarrow> int \<Rightarrow> py_error + string" where
  "TileMap_get tm x0 y0 =
     (if grid_width tm = 0 then Inl ZeroDivisionError
      else
        let x = x0 mod grid_width tm
        in if grid_height tm = 0 then Inl ZeroDivisionError
           else
             let y = y0 mod grid_height tm
             in (case py_index (rows tm) y of
                   None \<Rightarrow> Inl IndexError
                 | Some row \<Rightarrow>
                     if x \<ge> int (length row) then Inr ''0''
                     else (case py_index row x of
                             None \<Rightarrow> Inl IndexError
                           | Some cell \<Rightarrow> Inr cell)))"


section \<open>Tile-map files\<close>

text \<open>
  \<open>TileMapManager.load_resource\<close> reads the file line by line.  A line is lowercased,
  \<open>re.sub\<close> removes each comment (from a \<open>#\<close> or \<open>;\<close> to the end of the line, the
  newline not included), and splitting and joining removes all whitespace.
\<close>

fun strip_comments :: "bool \<Rightarrow> string \<Rightarrow> string" where
  "strip_comments in_comment [] = []"
| "strip_comments in_comment (c # cs) =
     (if in_comment then
        (if c = CHR 0x0A then c # strip_comments False cs else strip_comments True cs)
      else if c = CHR ''#'' \<or> c = CHR '';'' then strip_comments True cs
      else c # strip_comments False cs)"

definition clean_line :: "string \<Rightarrow> string" where
  "clean_line line = filter (\<lambda>c. \<not> py_isspace c) (strip_comments False (py_lower line))"

text \<open>\<open>str.split\<close> with a separator character: one more piece than separators.\<close>

fun split_on :: "char \<Rightarrow> string \<Rightarrow> string list" where
  "split_on sep [] = [[]]"
| "split_on sep (c # cs) =
     (if c = sep then [] # split_on sep cs
      else (case split_on sep cs of
              [] \<Rightarrow> [[c]]
            | piece # pieces \<Rightarrow> (c # piece) # pieces))"

text \<open>The cell pattern, a run of digits or a name with an optional repeat count, is
  matched with \<open>re.match\<close>: a cell passes when it starts with a digit or a letter.\<close>

definition re_match_tile :: "string \<Rightarrow> bool" where
  "re_match_tile tile = (case tile of [] \<Rightarrow> False | c # _ \<Rightarrow> is_digit c \<or> is_az c)"

text \<open>The repeat pattern: the shortest prefix that is followed by a star and at least one
  digit; the count is the whole run of digits after that star.\<close>

fun find_repeat :: "string \<Rightarrow> string \<Rightarrow> (string \<times> string) option" where
  "find_repeat seen [] = None"
| "find_repeat seen (c # cs) =
     (if c = CHR ''*'' \<and> cs \<noteq> [] \<and> is_digit (hd cs)
      then Some (rev seen, takeWhile is_digit cs)
      else find_repeat (c # seen) cs)"

definition digits_value :: "string \<Rightarrow> nat" where
  "digits_value ds = foldl (\<lambda>n c. n * 10 + nat (digit_value c)) 0 ds"

fun parse_tiles :: "string list \<Rightarrow> py_error + string list" where
  "parse_tiles [] = Inr []"
| "parse_tiles (tile # tiles) =
     (if tile \<noteq> [] \<and> \<not> re_match_tile tile then Inl IOError
      else
        let tile1 = (if tile = [] then ''0'' else tile);
            cells = (case find_repeat [] tile1 of
                       Some found \<Rightarrow> replicate (digits_value (snd found)) (fst found)
                     | None \<Rightarrow> [tile1])
        in case parse_tiles tiles of
             Inl e \<Rightarrow> Inl e
           | Inr row \<Rightarrow> Inr (cells @ row))"

text \<open>
  The loop over the lines.  The tile set is \<open>None\<close> until the \<open>tiles:\<close> line has been
  read (\<open>tiles_read\<close> is then false and the variable \<open>tileset\<close> unassigned).
  \<open>get_image\<close> stands for the call that loads the tile set's image and may raise.  At
  the end the height is the number of rows.
\<close>

fun load_lines ::
  "(string \<Rightarrow> py_error option) \<Rightarrow> string list \<Rightarrow> string option \<Rightarrow> nat \<Rightarrow> string list list
     \<Rightarrow> py_error + tilemap" where
  "load_lines get_image [] tiles w rs =
     (case tiles of
        None \<Rightarrow> Inl UnboundLocalError
      | Some t \<Rightarrow>
          Inr \<lparr>tileset = t, grid_width = int w, grid_height = int (length rs), rows = rs\<rparr>)"
| "load_lines get_image (line # lines) tiles w rs =
     (let l = clean_line line
      in if l = [] then load_lines get_image lines tiles w rs
         else
           (case tiles of
              Some t \<Rightarrow>
                (case parse_tiles (split_on CHR '','' l) of
                   Inl e \<Rightarrow> Inl e
                 | Inr row \<Rightarrow> load_lines get_image lines tiles (max w (length row)) (rs @ [row]))
            | None \<Rightarrow>
                if take 6 l = ''tiles:'' \<or> take 6 l = ''tiles='' then
                  (case get_image (drop 6 l) of
                     Some e \<Rightarrow> Inl e
                   | None \<Rightarrow> load_lines get_image lines (Some (drop 6 l)) w rs)
                else Inl IOError))"

definition TileMapManager_load_resource ::
  "(string \<Rightarrow> py_error option) \<Rightarrow> string list \<Rightarrow> py_error + tilemap" where
  "TileMapManager_load_resource get_image lines = load_lines get_image lines None 0 []"

text \<open>A loader of images that never fails, for the examples.\<close>

definition image_found :: "string \<Rightarrow> py_error option" where
  "image_found name = None"


section \<open>Input: key hold counters\<close>

text \<open>
  A keyboard event as \<open>InputHandler.process\<close> sees it: the key is given by the name that
  \<open>key_name\<close> computes from the SDL key code, and a key-down event carries SDL's
  \<open>repeat\<close> flag.  Events of any other type are \<open>OtherEvent\<close>.
\<close>

datatype key_event = KeyDown string bool | KeyUp string | OtherEvent

text \<open>The dictionary \<open>InputHandler.keys\<close>, from key names to hold counters, as a list
  of entries with distinct keys in insertion order.\<close>

type_synonym key_state = "(string \<times> int) list"

text \<open>\<open>d[k] = v\<close> replaces the value of an existing key in place and appends a new
  key; \<open>del d[k]\<close> removes the entry.\<close>

fun dict_set :: "string \<Rightarrow> int \<Rightarrow> key_state \<Rightarrow> key_state" where
  "dict_set k v [] = [(k, v)]"
| "dict_set k v (e # es) = (if fst e = k then (k, v) # es else e # dict_set k v es)"

definition dict_del :: "string \<Rightarrow> key_state \<Rightarrow> key_state" where
  "dict_del k d = filter (\<lambda>e. fst e \<noteq> k) d"

text \<open>\<open>InputHandler.process\<close>: a key-down that is not a repeat stores 1, a key-up deletes
  the entry (\<open>del\<close> of a missing key raises \<open>KeyError\<close>).\<close>

definition InputHandler_process :: "key_state \<Rightarrow> key_event \<Rightarrow> py_error + key_state" where
  "InputHandler_process ks ev =
     (case ev of
        KeyDown name repeat \<Rightarrow> if \<not> repeat then Inr (dict_set name 1 ks) else Inr ks
      | KeyUp name \<Rightarrow>
          (case map_of ks name of
             None \<Rightarrow> Inl KeyError
           | Some _ \<Rightarrow> Inr (dict_del name ks))
      | OtherEvent \<Rightarrow> Inr ks)"

text \<open>The first loop of \<open>InputHandler.update\<close>, which adds 1 to every stored counter.  The
  rest of \<open>update\<close> polls the joysticks and the mouse and does not touch \<open>keys\<close>.\<close>

definition InputHandler_update_keys :: "key_state \<Rightarrow> key_state" where
  "InputHandler_update_keys ks = map (\<lambda>e. (fst e, snd e + 1)) ks"

text \<open>\<open>InputHandler.key\<close>: the query, with 0 for a key that has no entry.\<close>

definition InputHandler_key :: "key_state \<Rightarrow> string \<Rightarrow> int" where
  "InputHandler_key ks key_name =
     (case map_of ks (py_lower (py_strip key_name)) of None \<Rightarrow> 0 | Some count \<Rightarrow> count)"

text \<open>
  What happens to the input handler over time is a sequence of steps, each one a
  notification handed to \<open>process\<close> or a per-frame call of \<open>update\<close>.  An exception
  ends the run.
\<close>

datatype input_step = Notify key_event | Update

fun run_input :: "key_state \<Rightarrow> input_step list \<Rightarrow> py_error + key_state" where
  "run_input ks [] = Inr ks"
| "run_input ks (Update # steps) = run_input (InputHandler_update_keys ks) steps"
| "run_input ks (Notify ev # steps) =
     (case InputHandler_process ks ev of
        Inl e \<Rightarrow> Inl e
      | Inr ks' \<Rightarrow> run_input ks' steps)"

text \<open>The value that \<open>key\<close> returns once the steps have run.\<close>

definition query_after :: "key_state \<Rightarrow> input_step list \<Rightarrow> string \<Rightarrow> py_error + int" where
  "query_after ks steps key_name =
     (case run_input ks steps of
        Inl e \<Rightarrow> Inl e
      | Inr ks' \<Rightarrow> Inr (InputHandler_key ks' key_name))"


section \<open>Input: joystick\<close>

text \<open>
  What SDL reports for one joystick at one poll: the state of each button and the raw
  value of each axis (a signed 16-bit quantity).  \<open>SDL_JoystickNumButtons\<close> and
  \<open>SDL_JoystickNumAxes\<close> are the lengths of the two lists.
\<close>

record sdl_joystick =
  button_states :: "bool list"
  axis_values :: "int list"

record joystick =
  buttons :: "int list"
  axis :: "pyfloat list"
  daxis :: "int list"

definition Joystick_init :: "sdl_joystick \<Rightarrow> joystick" where
  "Joystick_init dev =
     \<lparr>buttons = replicate (length (button_states dev)) 0,
      axis = replicate (length (axis_values dev)) (Float False 0 0),
      daxis = replicate (length (axis_values dev) * 2) 0\<rparr>"

text \<open>The normalised value of an axis: lines 51 to 59 of \<open>Joystick.update\<close>.  The raw
  integer is divided by a float, so it is converted first; on axis 1 the quotient is
  negated, and a result that equals zero, which is then the negative zero, is replaced
  by the literal \<open>0.0\<close>.\<close>

definition axis_value :: "nat \<Rightarrow> int \<Rightarrow> py_error + pyfloat" where
  "axis_value a raw =
     (case float_of_int raw of
        Inl e \<Rightarrow> Inl e
      | Inr x \<Rightarrow>
          (case float_div x (if raw > 0 then float_literal 32767 1 else float_literal 32768 1) of
             Inl e \<Rightarrow> Inl e
           | Inr v \<Rightarrow>
               Inr (if a = 1
                    then (let v' = float_neg v
                          in if float_is_zero v' then Float False 0 0 else v')
                    else v)))"

text \<open>The rest of the loop body, lines 61 to 71, for axis \<open>a\<close> with normalised value
  \<open>v\<close>.  Each list access outside the list raises \<open>IndexError\<close>.\<close>

definition axis_step ::
  "nat \<Rightarrow> pyfloat \<Rightarrow> pyfloat list \<times> int list \<Rightarrow> py_error + pyfloat list \<times> int list" where
  "axis_step a v st =
     (case st of (ax, dx) \<Rightarrow>
        if a * 2 + 0 \<ge> length dx then Inl IndexError
        else
          let dx1 = (if float_less v (float_neg (float_literal 333 1000))
                     then dx[a * 2 + 0 := dx ! (a * 2 + 0) + 1]
                     else dx[a * 2 + 0 := 0])
          in if a * 2 + 1 \<ge> length dx1 then Inl IndexError
             else
               let dx2 = (if float_less (float_literal 333 1000) v
                          then dx1[a * 2 + 1 := dx1 ! (a * 2 + 1) + 1]
                          else dx1[a * 2 + 1 := 0])
               in if a \<ge> length ax then Inl IndexError
                  else Inr (ax[a := v], dx2))"

text \<open>The two counters of an axis after a frame, as \<open>axis_step\<close> sets them.\<close>

definition neg_count :: "pyfloat \<Rightarrow> int \<Rightarrow> int" where
  "neg_count v old = (if float_less v (float_neg (float_literal 333 1000)) then old + 1 else 0)"

definition pos_count :: "pyfloat \<Rightarrow> int \<Rightarrow> int" where
  "pos_count v old = (if float_less (float_literal 333 1000) v then old + 1 else 0)"

fun update_buttons :: "sdl_joystick \<Rightarrow> nat list \<Rightarrow> int list \<Rightarrow> py_error + int list" where
  "update_buttons dev [] bs = Inr bs"
| "update_buttons dev (b # rest) bs =
     (if b \<ge> length bs then Inl IndexError
      else update_buttons dev rest
             (if button_states dev ! b then bs[b := bs ! b + 1] else bs[b := 0]))"

fun update_axes ::
  "sdl_joystick \<Rightarrow> nat list \<Rightarrow> pyfloat list \<times> int list \<Rightarrow> py_error + pyfloat list \<times> int list" where
  "update_axes dev [] st = Inr st"
| "update_axes dev (a # rest) st =
     (case axis_value a (axis_values dev ! a) of
        Inl e \<Rightarrow> Inl e
      | Inr v \<Rightarrow>
          (case axis_step a v st of
             Inl e \<Rightarrow> Inl e
           | Inr st' \<Rightarrow> update_axes dev rest st'))"

text \<open>\<open>Joystick.update\<close>: the button loop, then the axis loop, each over \<open>range\<close> of the
  count that SDL reports.\<close>

definition Joystick_update :: "sdl_joystick \<Rightarrow> joystick \<Rightarrow> py_error + joystick" where
  "Joystick_update dev j =
     (case update_buttons dev [0 ..< length (button_states dev)] (buttons j) of
        Inl e \<Rightarrow> Inl e
      | Inr bs \<Rightarrow>
          (case update_axes dev [0 ..< length (axis_values dev)] (axis j, daxis j) of
             Inl e \<Rightarrow> Inl e
           | Inr st \<Rightarrow> Inr \<lparr>buttons = bs, axis = fst st, daxis = snd st\<rparr>))"

text \<open>The joystick after a number of frames, each with its own poll of the device.\<close>

fun Joystick_updates :: "sdl_joystick list \<Rightarrow> joystick \<Rightarrow> py_error + joystick" where
  "Joystick_updates [] j = Inr j"
| "Joystick_updates (dev # devs) j =
     (case Joystick_update dev j of
        Inl e \<Rightarrow> Inl e
      | Inr j' \<Rightarrow> Joystick_updates devs j')"


section \<open>Resource cache\<close>

text \<open>
  The file system and the regular-expression engine are taken as given: \<open>dir_entries\<close>
  lists what \<open>os.listdir\<close> returns for each directory, and \<open>rule_compile name types\<close>
  is what \<open>re.compile\<close> makes, with \<open>re.I\<close>, of the pattern that \<open>find_resource\<close> builds
  from the name and the types, that is the name, one dot and the types joined by bars in
  parentheses.  The name goes into the pattern as it is, so the pattern may fail to
  compile: \<open>None\<close> stands for the \<open>re.error\<close> that is then raised, and \<open>Some rule\<close> for a
  compiled pattern, \<open>rule candidate\<close> telling whether it matches at the start of
  \<open>candidate\<close>.  The configured directories are taken to exist; one with no entry in
  \<open>dir_entries\<close> is read as empty.
\<close>

record files =
  resources_dirs :: "string list"
  dir_entries :: "(string \<times> string list) list"
  rule_compile :: "string \<Rightarrow> string list \<Rightarrow> (string \<Rightarrow> bool) option"

definition listdir :: "files \<Rightarrow> string \<Rightarrow> string list" where
  "listdir fs dir = (case map_of (dir_entries fs) dir of None \<Rightarrow> [] | Some entries \<Rightarrow> entries)"

definition path_join :: "string \<Rightarrow> string \<Rightarrow> string" where
  "path_join dir candidate =
     (if dir = [] then candidate
      else if last dir = CHR ''/'' then dir @ candidate
      else dir @ ''/'' @ candidate)"

text \<open>\<open>find_resource\<close>: the rule is compiled first, and \<open>re.error\<close> ends the call; then
  the result is the first candidate, in directory order, that the rule matches, and
  \<open>None\<close> when the loops end without one.\<close>

definition find_resource ::
  "files \<Rightarrow> string \<Rightarrow> string list \<Rightarrow> string list \<Rightarrow> py_error + string option" where
  "find_resource fs name types roots =
     (case rule_compile fs name types of
        None \<Rightarrow> Inl RegexError
      | Some rule \<Rightarrow>
          Inr (case List.find (\<lambda>entry. rule (snd entry))
                      (concat (map (\<lambda>dir. map (\<lambda>candidate. (dir, candidate)) (listdir fs dir))
                                 roots)) of
                 None \<Rightarrow> None
               | Some entry \<Rightarrow> Some (path_join (fst entry) (snd entry))))"

text \<open>
  What \<open>re.compile\<close> does with some names, for types that are made of letters, digits
  and underscores.  In a name made of such characters and dots, a dot stands for any
  character but a newline and every other character for itself, letter case apart: the
  pattern compiles, and it matches a candidate that starts with the name read so, then
  has one character that is not a newline, then one of the types.  A name that has,
  besides such characters, opening parentheses and no closing one, or closing
  parentheses and no opening one, makes a pattern whose groups are not balanced, and
  the pattern does not compile.  Any other name is read by further rules of regular
  expressions, which are not described here: the value of \<open>word_rule\<close> is then left
  open.
\<close>

definition word_char :: "char \<Rightarrow> bool" where
  "word_char c \<longleftrightarrow>
     c \<in> set ''abcdefghijklmnopqrstuvwxyzABCDEFGHIJKLMNOPQRSTUVWXYZ0123456789_''"

text \<open>The rest of the candidate after the part that the pattern characters match, or
  \<open>None\<close> when they do not match.\<close>

fun rule_prefix :: "string \<Rightarrow> string \<Rightarrow> string option" where
  "rule_prefix [] c = Some c"
| "rule_prefix (p # ps) [] = None"
| "rule_prefix (p # ps) (c # cs) =
     (if (if p = CHR ''.'' then c \<noteq> CHR 0x0A else py_lower_char p = py_lower_char c)
      then rule_prefix ps cs
      else None)"

definition word_match :: "string \<Rightarrow> string list \<Rightarrow> string \<Rightarrow> bool" where
  "word_match name types candidate =
     (case rule_prefix name candidate of
        None \<Rightarrow> False
      | Some [] \<Rightarrow> False
      | Some (d # rest) \<Rightarrow>
          d \<noteq> CHR 0x0A \<and> list_ex (\<lambda>t. rule_prefix t rest \<noteq> None) types)"

definition word_rule :: "string \<Rightarrow> string list \<Rightarrow> (string \<Rightarrow> bool) option" where
  "word_rule name types =
     (if types \<noteq> [] \<and> list_all (list_all word_char) types
         \<and> list_all (\<lambda>c. word_char c \<or> c \<in> set ''.()'') name
      then (if CHR ''('' \<notin> set name \<and> CHR '')'' \<notin> set name
            then Some (word_match name types)
            else if (CHR ''('' \<in> set name) \<noteq> (CHR '')'' \<in> set name) then None
            else undefined)
      else undefined)"

text \<open>
  A resource manager of one kind.  The loaders belong to the media library: each one
  raises, returns a false value (\<open>None\<close> or a null handle, here \<open>Inr None\<close>) or returns
  a resource.  A cache key is the lowercased name with the extra arguments of \<open>get\<close>.
\<close>

type_synonym 'd cache_key = "string \<times> 'd list"

record ('d, 'r) manager =
  resource_type :: string
  file_types :: "string list"
  meta_file_types :: "string list"
  load_internal_resource :: "'d cache_key \<Rightarrow> py_error + 'r option"
  load_resource :: "'d cache_key \<Rightarrow> string \<Rightarrow> string option \<Rightarrow> py_error + 'r option"

text \<open>What a call does outside the cache: each directory search and each call of a loader
  is written to a log, in order.\<close>

datatype 'd io_event =
  Search string "string list"
| LoadInternal "'d cache_key"
| LoadFile "'d cache_key" string "string option"

record ('d, 'r) manager_state =
  cache :: "('d cache_key \<times> 'r) list"
  io_log :: "'d io_event list"

text \<open>
  \<open>AbstractResourceManager.get\<close>.  The two statements that raise \<open>IOError\<close> build their
  message from \<open>self.reosurce_type\<close>, an attribute that no manager has, so evaluating the
  message raises \<open>AttributeError\<close> before \<open>IOError\<close> is constructed.
\<close>
definition Manager_get ::
  "files \<Rightarrow> ('d, 'r) manager \<Rightarrow> ('d, 'r) manager_state \<Rightarrow> string \<Rightarrow> 'd list \<Rightarrow> bool
     \<Rightarrow> (py_error + 'r) \<times> ('d, 'r) manager_state" where
  "Manager_get fs m st name0 more_key internal =
     (let name = py_strip name0;
          ident = py_lower name;
          key = (ident, more_key)
      in if \<not> internal \<and> \<not> re_match_resource_name ident then (Inl ValueError, st)
         else
           (case map_of (cache st) key of
              Some resource \<Rightarrow> (Inr resource, st)
            | None \<Rightarrow>
                if internal then
                  (let st1 = st\<lparr>io_log := io_log st @ [LoadInternal key]\<rparr>
                   in case load_internal_resource m key of
                        Inl e \<Rightarrow> (Inl e, st1)
                      | Inr None \<Rightarrow> (Inl AttributeError, st1)
                      | Inr (Some resource) \<Rightarrow>
                          (Inr resource, st1\<lparr>cache := cache st1 @ [(key, resource)]\<rparr>))
                else
                  (let st1 = st\<lparr>io_log := io_log st @ [Search ident (file_types m)]\<rparr>
                   in case find_resource fs ident (file_types m) (resources_dirs fs) of
                        Inl e \<Rightarrow> (Inl e, st1)
                      | Inr filename \<Rightarrow>
                          (let st2 = (if meta_file_types m \<noteq> []
                                      then st1\<lparr>io_log := io_log st1
                                                   @ [Search ident (meta_file_types m)]\<rparr>
                                      else st1)
                           in case (if meta_file_types m \<noteq> []
                                    then find_resource fs ident (meta_file_types m)
                                           (resources_dirs fs)
                                    else Inr None) of
                                Inl e \<Rightarrow> (Inl e, st2)
                              | Inr meta_filename \<Rightarrow>
                                  (case filename of
                                     None \<Rightarrow> (Inl KeyError, st2)
                                   | Some path \<Rightarrow>
                                       (let st3 = st2\<lparr>io_log := io_log st2
                                                     @ [LoadFile key path meta_filename]\<rparr>
                                        in case load_resource m key path meta_filename of
                                             Inl e \<Rightarrow> (Inl e, st3)
                                           | Inr None \<Rightarrow> (Inl AttributeError, st3)
                                           | Inr (Some resource) \<Rightarrow>
                                               (Inr resource,
                                                st3\<lparr>cache := cache st3 @ [(key, resource)]\<rparr>)))))))"

text \<open>\<open>AbstractResourceManager.dispose\<close> frees every cached resource and empties the
  cache; the calls of \<open>free_resource\<close> belong to the media library.\<close>

definition Manager_dispose :: "('d, 'r) manager_state \<Rightarrow> ('d, 'r) manager_state" where
  "Manager_dispose st = st\<lparr>cache := []\<rparr>"


section \<open>Example values\<close>


definition IMAGE_EXTS :: "string list" where
  "IMAGE_EXTS = [''bmp'', ''gif'', ''jpg'', ''jpeg'', ''png'', ''tga'', ''tif'', ''tiff'']"

definition example_files :: files where
  "example_files =
     \<lparr>resources_dirs = [''game'', ''builtin''],
      dir_entries =
        [(''game'', [''notes.txt'', ''Hero.PNG'', ''my_tiles.png'', ''broken.png'', ''arial.ttf'']),
         (''builtin'', [''hero.png'', ''hero.ini''])],
      rule_compile = word_rule\<rparr>"

definition example_images :: "(int, string) manager" where
  "example_images =
     \<lparr>resource_type = ''image'',
      file_types = IMAGE_EXTS,
      meta_file_types = [''ini''],
      load_internal_resource = (\<lambda>key. Inr None),
      load_resource =
        (\<lambda>key file meta. if file = ''game/broken.png'' then Inl IOError
                          else Inr (Some (''image '' @ file)))\<rparr>"


definition empty_state :: "(int, string) manager_state" where
  "empty_state = \<lparr>cache = [], io_log = []\<rparr>"


text \<open>An image of 100 by 100 pixels with a margin of 10, tiles of 20 by 20 and no spacing,
  and one animation on it.\<close>

definition example_image :: image where
  "example_image =
     \<lparr>width = 100, height = 100, tile_width = 20, tile_height = 20,
      tile_margin = 10, tile_spacing = 0,
      animations =
        [(''walk'', \<lparr>rate = float_literal 10 1, loop = ''loop'', frames = [5, 6, 7]\<rparr>)]\<rparr>"

text \<open>A grid of 4 by 3 tiles whose second row is shorter than the grid is wide, and the
  map that a file with a \<open>tiles:\<close> line and no rows gives.\<close>

definition example_grid :: tilemap where
  "example_grid =
     \<lparr>tileset = ''tiles'', grid_width = 4, grid_height = 3,
      rows = [[''1'', ''2'', ''3'', ''4''], [''5'', ''6''], [''bird'', ''0'', ''7'', ''8'']]\<rparr>"

definition empty_grid :: tilemap where
  "empty_grid = \<lparr>tileset = ''tiles'', grid_width = 0, grid_height = 0, rows = []\<rparr>"

definition example_pad :: sdl_joystick where
  "example_pad = \<lparr>button_states = [True], axis_values = [16384, - 16384]\<rparr>"

text \<open>A pad at rest: no button is down and both axes report 0.\<close>

definition resting_pad :: sdl_joystick where
  "resting_pad = \<lparr>button_states = [False], axis_values = [0, 0]\<rparr>"


section \<open>Floats and real numbers\<close>

text \<open>The order of two finite floats is the order of the real numbers that they stand
  for.\<close>

lemma float_value_powi:
  "float_value s m e = (if s then - 1 else 1) * of_int m * 2 powi e"
  by (simp add: float_value_def power_int_def field_simps)

lemma scaled_value:
  assumes "k \<le> e"
  shows "float_value s m e = of_int ((if s then - m else m) * 2 ^ nat (e - k)) * 2 powi k"
proof -
  have "(2 :: real) powi e = 2 powi (e - k) * 2 powi k"
    using power_int_add [of "2 :: real" "e - k" k] by simp
  moreover have "(2 :: real) powi (e - k) = 2 ^ nat (e - k)"
    using assms by (simp add: power_int_def)
  ultimately show ?thesis by (simp add: float_value_powi)
qed

lemma float_less_value:
  "float_less (Float s1 m1 e1) (Float s2 m2 e2)
     \<longleftrightarrow> float_value s1 m1 e1 < float_value s2 m2 e2"
proof -
  let ?k = "min e1 e2"
  let ?a = "(if s1 then - m1 else m1) * 2 ^ nat (e1 - ?k)"
  let ?b = "(if s2 then - m2 else m2) * 2 ^ nat (e2 - ?k)"
  have pos: "(0 :: real) < 2 powi ?k" by simp
  have "float_value s1 m1 e1 = of_int ?a * 2 powi ?k" by (rule scaled_value) simp
  moreover have "float_value s2 m2 e2 = of_int ?b * 2 powi ?k" by (rule scaled_value) simp
  ultimately have "float_value s1 m1 e1 < float_value s2 m2 e2
      \<longleftrightarrow> (of_int ?a :: real) * 2 powi ?k < of_int ?b * 2 powi ?k"
    by simp
  also have "\<dots> \<longleftrightarrow> (of_int ?a :: real) < of_int ?b"
    using pos by (rule mult_less_cancel_right_pos)
  also have "\<dots> \<longleftrightarrow> ?a < ?b" by (rule of_int_less_iff)
  finally show ?thesis by (simp add: float_less_def)
qed

text \<open>Truncation toward zero: the floor of a value that is not negative, the ceiling of
  one that is not positive.\<close>

lemma float_trunc_value:
  "float_trunc s m e = (if s then \<lceil>float_value s m e\<rceil> else \<lfloor>float_value s m e\<rfloor>)"
proof (cases "0 \<le> e")
  case True
  have "\<lfloor>(of_int m :: real) * 2 ^ nat e\<rfloor> = m * 2 ^ nat e"
    by (metis floor_of_int of_int_mult of_int_numeral of_int_power)
  then show ?thesis using True by (simp add: float_trunc_def float_value_def ceiling_def)
next
  case False
  have "\<lfloor>(of_int m :: real) / 2 ^ nat (- e)\<rfloor> = m div 2 ^ nat (- e)"
    using floor_divide_of_int_eq [of m "2 ^ nat (- e)", where ?'a = real] by simp
  then show ?thesis using False by (simp add: float_trunc_def float_value_def ceiling_def)
qed

text \<open>The float of the literal 0.333 and the two thresholds of the joystick as real
  numbers.\<close>

lemma threshold_literal: "float_literal 333 1000 = Float False 5998794703657501 (- 54)"
  by code_simp

lemma threshold_value:
  "float_less (float_literal 333 1000) (Float s m e)
     \<longleftrightarrow> 5998794703657501 / 2 ^ 54 < float_value s m e"
  "float_less (Float s m e) (float_neg (float_literal 333 1000))
     \<longleftrightarrow> float_value s m e < - (5998794703657501 / 2 ^ 54)"
  by (simp_all add: threshold_literal float_neg_def float_less_value)
    (simp_all add: float_value_def)


section \<open>Animation frames\<close>

lemma float_mul_zero:
  "float_mul (Float s m e) (Float s' 0 e') = Float (s \<noteq> s') 0 0"
  by (simp add: float_mul_def round_ratio_def)

lemma float_mul_zero_special:
  "float_mul (Infinity s) (Float s' 0 e') = NaN" "float_mul NaN (Float s' 0 e') = NaN"
  by (simp_all add: float_mul_def)

lemma float_mul_example:
  "float_mul (float_literal 1 1) (float_literal 10 1) = Float False 5629499534213120 (- 49)"
  by code_simp

text \<open>
  C1.  The claim: a looping animation returns \<open>frames[floor(t * rate) mod n] + 1\<close>.
  The code returns the wrapped index plus one and never reads the frame table: the
  animation with rate 10.0 and frames 5, 6, 7 gives 1 at time 0.35 (the product is the
  float 3.5, the index 3 wraps to 0), where the table entry plus one is 6.
\<close>

theorem get_frame_loop_ignores_frame_table:
  "get_frame \<lparr>rate = float_literal 10 1, loop = ''loop'', frames = [5, 6, 7]\<rparr> (float_literal 35 100)
     = Inr 1
   \<and> frames \<lparr>rate = float_literal 10 1, loop = ''loop'', frames = [5, 6, 7]\<rparr> ! 0 + 1 = 6"
  by code_simp

text \<open>
  C2.  The claim as written uses \<open>floor\<close> and has the index 0 at every time when the
  rate is 0.  \<open>int\<close> truncates toward zero, so at time -0.05 and rate 10.0, where the
  product is the float -0.5 with floor -1, the index is 0 and not -1; and at rate 0.0
  and an infinite time the product is \<open>nan\<close>, and \<open>int\<close> raises \<open>ValueError\<close>.
\<close>

theorem get_frame_floor_counterexample:
  "float_mul (float_literal (- 5) 100) (float_literal 10 1) = Float True 4503599627370496 (- 53)
   \<and> float_value True 4503599627370496 (- 53) = - (1 / 2)
   \<and> get_frame \<lparr>rate = float_literal 10 1, loop = ''none'', frames = [0, 1, 2]\<rparr>
        (float_literal (- 5) 100)
       \<noteq> Inr (min \<lfloor>float_value True 4503599627370496 (- 53)\<rfloor> 3 + 1)
   \<and> get_frame \<lparr>rate = float_literal 0 1, loop = ''none'', frames = [0, 1, 2]\<rparr> (Infinity False)
       \<noteq> Inr (0 + 1)"
proof -
  have a: "float_mul (float_literal (- 5) 100) (float_literal 10 1)
             = Float True 4503599627370496 (- 53)"
    by code_simp
  have b: "float_value True 4503599627370496 (- 53) = - (1 / 2)"
    by (simp add: float_value_def)
  have c: "get_frame \<lparr>rate = float_literal 10 1, loop = ''none'', frames = [0, 1, 2]\<rparr>
        (float_literal (- 5) 100) = Inr 1"
    by code_simp
  have d: "get_frame \<lparr>rate = float_literal 0 1, loop = ''none'', frames = [0, 1, 2]\<rparr>
             (Infinity False) = Inl ValueError"
    by code_simp
  have e: "\<lfloor>- (1 / 2) :: real\<rfloor> = - 1" by simp
  show ?thesis unfolding a b c d e by simp
qed

text \<open>
  C2, amended.  For loop mode \<open>none\<close>: when the float product of the time and the rate
  is finite, the index is the minimum of that product truncated toward zero and the
  number of frames, and the function returns the index plus one; the call raises
  \<open>OverflowError\<close> when the product is infinite and \<open>ValueError\<close> when it is \<open>nan\<close>.
  The truncation of a finite float is the floor of its value when the sign is not set
  and the ceiling otherwise.  A three-frame animation with rate 10.0 has index 3 at time
  1.0, one past the last offset.  An animation \<open>b\<close> whose rate equals zero and which
  has at least one frame has index 0 at every finite time, whatever its loop mode, and
  raises \<open>ValueError\<close> at an infinite time and at \<open>nan\<close>.
\<close>

theorem get_frame_none_clamp:
  assumes "loop a = ''none''" and "float_is_zero (rate b)" and "frames b \<noteq> []"
  shows "get_frame a t =
           (case float_mul t (rate a) of
              Float s m e \<Rightarrow> Inr (min (float_trunc s m e) (int (length (frames a))) + 1)
            | Infinity s \<Rightarrow> Inl OverflowError
            | NaN \<Rightarrow> Inl ValueError)
       \<and> float_trunc s m e = (if s then \<lceil>float_value s m e\<rceil> else \<lfloor>float_value s m e\<rfloor>)
       \<and> get_frame \<lparr>rate = float_literal 10 1, loop = ''none'', frames = [f0, f1, f2]\<rparr>
            (float_literal 1 1) = Inr (3 + 1)
       \<and> get_frame b (Float s' m' e') = Inr (0 + 1)
       \<and> get_frame b (Infinity s') = Inl ValueError
       \<and> get_frame b NaN = Inl ValueError"
proof -
  have one: "get_frame a t =
           (case float_mul t (rate a) of
              Float s m e \<Rightarrow> Inr (min (float_trunc s m e) (int (length (frames a))) + 1)
            | Infinity s \<Rightarrow> Inl OverflowError
            | NaN \<Rightarrow> Inl ValueError)"
    using assms(1) by (simp add: get_frame_def py_int_float_def split: pyfloat.splits)
  have three: "get_frame \<lparr>rate = float_literal 10 1, loop = ''none'', frames = [f0, f1, f2]\<rparr>
            (float_literal 1 1) = Inr (3 + 1)"
    by (simp add: get_frame_def float_mul_example py_int_float_def float_trunc_def)
  obtain sr er where r: "rate b = Float sr 0 er"
    using assms(2) by (cases "rate b") (simp_all add: float_is_zero_def)
  have four: "get_frame b (Float s' m' e') = Inr (0 + 1)"
    using assms(3)
    by (simp add: get_frame_def r float_mul_zero py_int_float_def float_trunc_def Let_def)
  have five: "get_frame b (Infinity s') = Inl ValueError" "get_frame b NaN = Inl ValueError"
    by (simp_all add: get_frame_def r float_mul_zero_special py_int_float_def)
  show ?thesis using one float_trunc_value [of s m e] three four five by blast
qed

theorem get_frame_none_clamp_witness:
  "loop \<lparr>rate = float_literal 10 1, loop = ''none'', frames = [0, 1, 2]\<rparr> = ''none''
   \<and> float_is_zero (rate \<lparr>rate = float_literal 0 1, loop = ''loop'', frames = [0, 1, 2]\<rparr>)
   \<and> frames \<lparr>rate = float_literal 0 1, loop = ''loop'', frames = [0, 1, 2]\<rparr> \<noteq> []
   \<and> float_mul (float_literal 15 100) (float_literal 10 1) = Float False 6755399441055744 (- 52)
   \<and> float_trunc False 6755399441055744 (- 52) = \<lfloor>3 / 2 :: real\<rfloor>
   \<and> get_frame \<lparr>rate = float_literal 10 1, loop = ''none'', frames = [0, 1, 2]\<rparr>
        (float_literal 15 100) = Inr 2
   \<and> get_frame \<lparr>rate = float_literal 10 1, loop = ''none'', frames = [0, 1, 2]\<rparr>
        (float_literal 1 1) = Inr 4
   \<and> get_frame \<lparr>rate = float_literal 10 1, loop = ''none'', frames = [0, 1, 2]\<rparr> NaN
       = Inl ValueError
   \<and> get_frame \<lparr>rate = float_literal 0 1, loop = ''loop'', frames = [0, 1, 2]\<rparr>
        (Float False 7 (- 1)) = Inr 1
   \<and> get_frame \<lparr>rate = float_literal 0 1, loop = ''loop'', frames = [0, 1, 2]\<rparr> (Infinity False)
       = Inl ValueError"
proof -
  let ?a = "\<lparr>rate = float_literal 10 1, loop = ''none'', frames = [0, 1, 2]\<rparr>"
  let ?b = "\<lparr>rate = float_literal 0 1, loop = ''loop'', frames = [0, 1, 2]\<rparr>"
  have h: "loop ?a = ''none''" "float_is_zero (rate ?b)" "frames ?b \<noteq> []"
    by code_simp+
  have p: "float_mul (float_literal 15 100) (rate ?a) = Float False 6755399441055744 (- 52)"
    "float_mul (float_literal 15 100) (float_literal 10 1) = Float False 6755399441055744 (- 52)"
    "float_mul NaN (rate ?a) = NaN"
    by code_simp+
  have v: "float_value False 6755399441055744 (- 52) = 3 / 2"
    by (simp add: float_value_def)
  note inst = get_frame_none_clamp [OF h, of "float_literal 15 100" False 6755399441055744 "- 52"
      0 1 2 False 7 "- 1"]
  have tr: "float_trunc False 6755399441055744 (- 52) = \<lfloor>3 / 2 :: real\<rfloor>"
    using inst [THEN conjunct2, THEN conjunct1] v by simp
  have c15: "get_frame ?a (float_literal 15 100) = Inr 2"
    using inst [THEN conjunct1] p(1) tr by simp
  have c1: "get_frame ?a (float_literal 1 1) = Inr 4"
    using inst [THEN conjunct2, THEN conjunct2, THEN conjunct1] by simp
  have cn: "get_frame ?a NaN = Inl ValueError"
    using get_frame_none_clamp [OF h, of NaN, THEN conjunct1] p(3) by simp
  have cz: "get_frame ?b (Float False 7 (- 1)) = Inr 1"
    "get_frame ?b (Infinity False) = Inl ValueError"
    using inst [THEN conjunct2, THEN conjunct2, THEN conjunct2] by simp_all
  show ?thesis using h p(2) tr c15 c1 cn cz by simp
qed


section \<open>Tile geometry\<close>

lemma get_source_rect_int:
  "py_int ref = Some n \<Longrightarrow> get_source_rect img ref time = tile_rect img n"
  by (cases ref) (simp_all add: py_int_def)

lemma columns_positive:
  assumes "0 < tile_width img" and "tile_width img \<le> width img - 2 * tile_margin img"
  shows "0 < (width img - tile_margin img * 2) div tile_width img"
  using assms by (simp add: pos_imp_zdiv_pos_iff)

lemma getint_range: "getint given fallback lo hi = Inr i \<Longrightarrow> lo \<le> i \<and> i \<le> hi"
  by (auto simp add: getint_def split: option.splits if_splits)

text \<open>The loader takes \<open>tile_width\<close> between 1 and the width less the two margins
  (with no description file it is the width itself), so an image has at least one
  column.\<close>

lemma tile_geometry_range:
  assumes "tile_geometry w h opts = Inr (margin, tile_w, tile_h, spacing)"
  shows "0 \<le> margin \<and> 1 \<le> tile_w \<and> tile_w \<le> w - 2 * margin
       \<and> 1 \<le> tile_h \<and> tile_h \<le> h - 2 * margin
       \<and> 0 \<le> spacing \<and> spacing \<le> w - 2 * margin - tile_w"
proof -
  have m: "getint (opt_tile_margin opts) 0 0 (min w h div 2 - (1 - min w h mod 2)) = Inr margin"
    and tw: "getint (opt_tile_width opts) w 1 (w - margin * 2) = Inr tile_w"
    and th: "getint (opt_tile_height opts) h 1 (h - margin * 2) = Inr tile_h"
    and sp: "getint (opt_tile_spacing opts) 0 0 (w - margin * 2 - tile_w) = Inr spacing"
    using assms by (auto simp add: tile_geometry_def Let_def split: sum.splits)
  show ?thesis
    using getint_range [OF m] getint_range [OF tw] getint_range [OF th] getint_range [OF sp]
    by simp
qed

text \<open>A value stored in a C \<open>int\<close> lies in the range of the type and differs from the
  value given by a multiple of \<open>2 ^ 32\<close>; a value in the range is stored as it is.\<close>

lemma c_int_range: "- 2147483648 \<le> c_int v \<and> c_int v < 2147483648"
  by (simp add: c_int_def)

lemma c_int_mod: "c_int v mod 4294967296 = v mod 4294967296"
proof -
  have "c_int v mod 4294967296 = ((v + 2147483648) mod 4294967296 - 2147483648) mod 4294967296"
    by (simp add: c_int_def)
  also have "\<dots> = (v + 2147483648 - 2147483648) mod 4294967296"
    by (rule mod_diff_left_eq)
  finally show ?thesis by simp
qed

lemma c_int_id: "- 2147483648 \<le> v \<Longrightarrow> v < 2147483648 \<Longrightarrow> c_int v = v"
  by (simp add: c_int_def)

text \<open>
  C5.  The claim gives the origin of the rectangle as the value of a formula, for every
  reference \<open>r \<ge> 1\<close>.  The rectangle is an \<open>SDL_Rect\<close>, whose fields are C integers
  of 32 bits: on the image of 100 by 100 with margin 10 and tiles of 20 by 20, the
  reference 2147483649 has the formula give 10737418250 for the second coordinate, and
  the field holds -2147483638.
\<close>

theorem get_source_rect_wrap_counterexample:
  "py_int (RStr ''2147483649'') = Some 2147483649
   \<and> get_source_rect example_image (RStr ''2147483649'') (float_literal 0 1)
       = Inr \<lparr>rect_x = 10, rect_y = - 2147483638, rect_w = 20, rect_h = 20\<rparr>
   \<and> tile_margin example_image
       + ((2147483649 - 1)
            div ((width example_image - 2 * tile_margin example_image) div tile_width example_image))
         * (tile_height example_image + tile_spacing example_image) = 10737418250"
  by code_simp

text \<open>
  C5, amended.  On an image whose tile width is in the range the loader accepts, a
  reference that \<open>int\<close> reads as 0 gives the rectangle of the whole image, and one that
  it reads as \<open>r \<ge> 1\<close> gives the tile of frame \<open>r - 1\<close>: with \<open>columns\<close> the floor of
  the width less two margins over the tile width, the origin is the margin plus the
  column (\<open>frame mod columns\<close>) and the row (\<open>frame div columns\<close>) times the cell size,
  and the size is the tile size, each of the four numbers as a C integer holds it: the
  number in the range from \<open>- 2 ^ 31\<close> to \<open>2 ^ 31 - 1\<close> that differs from it by a
  multiple of \<open>2 ^ 32\<close>, which is the number itself when it lies in that range.  No
  \<open>r\<close> is refused, so the result is not checked against the extent of the image.  On
  the image of 100 by 100 with margin 10, tiles of 20 by 20 and no spacing, frame 5 has
  origin (10, 30).
\<close>

theorem get_source_rect_frame:
  assumes "0 < tile_width img" and "tile_width img \<le> width img - 2 * tile_margin img"
    and "py_int ref0 = Some 0" and "py_int ref = Some r" and "1 \<le> r"
  shows "get_source_rect img ref0 time =
           Inr \<lparr>rect_x = 0, rect_y = 0, rect_w = c_int (width img), rect_h = c_int (height img)\<rparr>
       \<and> get_source_rect img ref time =
           Inr \<lparr>rect_x = c_int (tile_margin img
                    + ((r - 1) mod ((width img - 2 * tile_margin img) div tile_width img))
                      * (tile_width img + tile_spacing img)),
                 rect_y = c_int (tile_margin img
                    + ((r - 1) div ((width img - 2 * tile_margin img) div tile_width img))
                      * (tile_height img + tile_spacing img)),
                 rect_w = c_int (tile_width img),
                 rect_h = c_int (tile_height img)\<rparr>
       \<and> - 2147483648 \<le> c_int v \<and> c_int v < 2147483648
       \<and> c_int v mod 4294967296 = v mod 4294967296
       \<and> (- 2147483648 \<le> v \<and> v < 2147483648 \<longrightarrow> c_int v = v)
       \<and> get_source_rect
             \<lparr>width = 100, height = 100, tile_width = 20, tile_height = 20,
              tile_margin = 10, tile_spacing = 0, animations = anims\<rparr> (RInt 5) time
           = Inr \<lparr>rect_x = 10, rect_y = 30, rect_w = 20, rect_h = 20\<rparr>"
proof -
  have cols: "(width img - tile_margin img * 2) div tile_width img \<noteq> 0"
    using columns_positive [OF assms(1,2)] by simp
  have tw: "tile_width img \<noteq> 0" using assms(1) by simp
  have r: "r \<noteq> 0" using assms(5) by simp
  have zero: "get_source_rect img ref0 time = tile_rect img 0"
    using assms(3) by (rule get_source_rect_int)
  have tile: "get_source_rect img ref time = tile_rect img r"
    using assms(4) by (rule get_source_rect_int)
  have whole: "tile_rect img 0 =
                 Inr \<lparr>rect_x = 0, rect_y = 0, rect_w = c_int (width img), rect_h = c_int (height img)\<rparr>"
    by (simp add: tile_rect_def SDL_Rect_def c_int_def)
  have frame: "tile_rect img r =
           Inr \<lparr>rect_x = c_int (tile_margin img
                    + ((r - 1) mod ((width img - 2 * tile_margin img) div tile_width img))
                      * (tile_width img + tile_spacing img)),
                 rect_y = c_int (tile_margin img
                    + ((r - 1) div ((width img - 2 * tile_margin img) div tile_width img))
                      * (tile_height img + tile_spacing img)),
                 rect_w = c_int (tile_width img),
                 rect_h = c_int (tile_height img)\<rparr>"
    using cols tw r by (simp add: tile_rect_def SDL_Rect_def Let_def mult.commute)
  have example: "get_source_rect
             \<lparr>width = 100, height = 100, tile_width = 20, tile_height = 20,
              tile_margin = 10, tile_spacing = 0, animations = anims\<rparr> (RInt 5) time
           = Inr \<lparr>rect_x = 10, rect_y = 30, rect_w = 20, rect_h = 20\<rparr>"
    by (simp add: tile_rect_def SDL_Rect_def c_int_def)
  show ?thesis
    unfolding zero tile whole frame
    using example c_int_range [of v] c_int_mod [of v] c_int_id [of v] by simp
qed

theorem get_source_rect_frame_witness:
  "0 < tile_width example_image
   \<and> tile_width example_image \<le> width example_image - 2 * tile_margin example_image
   \<and> py_int (RStr ''0'') = Some 0
   \<and> py_int (RStr '' 5 '') = Some 5
   \<and> (1 :: int) \<le> 5
   \<and> (width example_image - 2 * tile_margin example_image) div tile_width example_image = 4
   \<and> - 2147483648 \<le> (30 :: int) \<and> (30 :: int) < 2147483648
   \<and> get_source_rect example_image (RStr ''0'') (float_literal 0 1)
       = Inr \<lparr>rect_x = 0, rect_y = 0, rect_w = 100, rect_h = 100\<rparr>
   \<and> get_source_rect example_image (RStr '' 5 '') (float_literal 0 1)
       = Inr \<lparr>rect_x = 10, rect_y = 30, rect_w = 20, rect_h = 20\<rparr>"
proof -
  have w: "0 < tile_width example_image"
    "tile_width example_image \<le> width example_image - 2 * tile_margin example_image"
    by (simp_all add: example_image_def)
  have zero: "py_int (RStr ''0'') = Some 0" by code_simp
  have five: "py_int (RStr '' 5 '') = Some 5" by code_simp
  have one: "(1 :: int) \<le> 5" by simp
  note inst = get_source_rect_frame [OF w zero five one, of "float_literal 0 1" 30]
  have ids: "c_int 100 = 100" "c_int 20 = 20" "c_int 10 = 10" "c_int 30 = 30"
    using inst get_source_rect_frame [OF w zero five one, of "float_literal 0 1" 100]
      get_source_rect_frame [OF w zero five one, of "float_literal 0 1" 20]
      get_source_rect_frame [OF w zero five one, of "float_literal 0 1" 10]
    by simp_all
  show ?thesis
    using w zero five inst ids by (simp add: example_image_def)
qed


section \<open>Animation names on an image\<close>








section \<open>Tile-map addressing\<close>

lemmas tilemap_defs = example_grid_def empty_grid_def TileMap_get_def py_index_def
  TileMapManager_load_resource_def clean_line_def py_lower_def py_lower_char_def
  py_isspace_def re_match_tile_def is_az_def is_digit_def digits_value_def digit_value_def
  image_found_def Let_def

lemma py_index_in_range:
  "0 \<le> i \<Longrightarrow> i < int (length xs) \<Longrightarrow> py_index xs i = Some (xs ! nat i)"
  by (simp add: py_index_def)

lemma TileMap_get_in_grid:
  assumes "1 \<le> grid_width tm" and "1 \<le> grid_height tm"
    and "grid_height tm = int (length (rows tm))"
  shows "TileMap_get tm x y =
           Inr (if length (rows tm ! nat (y mod grid_height tm)) \<le> nat (x mod grid_width tm)
                then ''0''
                else rows tm ! nat (y mod grid_height tm) ! nat (x mod grid_width tm))"
proof -
  let ?w = "grid_width tm" and ?h = "grid_height tm"
  have w: "?w \<noteq> 0" and h: "?h \<noteq> 0" using assms(1,2) by simp_all
  have x: "0 \<le> x mod ?w" using assms(1) by simp
  have hpos: "0 < ?h" using assms(2) by simp
  have y0: "0 \<le> y mod ?h" using hpos by (rule pos_mod_sign)
  have "y mod ?h < ?h" using hpos by (rule pos_mod_bound)
  then have y1: "y mod ?h < int (length (rows tm))" using assms(3) by simp
  have row: "py_index (rows tm) (y mod ?h) = Some (rows tm ! nat (y mod ?h))"
    using y0 y1 by (rule py_index_in_range)
  have conv: "length (rows tm ! nat (y mod ?h)) \<le> nat (x mod ?w)
               \<longleftrightarrow> int (length (rows tm ! nat (y mod ?h))) \<le> x mod ?w"
    using x by (rule le_nat_iff)
  show ?thesis
  proof (cases "int (length (rows tm ! nat (y mod ?h))) \<le> x mod ?w")
    case True
    then show ?thesis unfolding conv using w h row by (simp add: TileMap_get_def Let_def)
  next
    case False
    then have "py_index (rows tm ! nat (y mod ?h)) (x mod ?w)
                 = Some (rows tm ! nat (y mod ?h) ! nat (x mod ?w))"
      using x by (intro py_index_in_range) simp_all
    then show ?thesis unfolding conv using False w h row by (simp add: TileMap_get_def Let_def)
  qed
qed



text \<open>What the loader guarantees of a map it returns: the height is the number of rows,
  and the width is at least the length of every row.\<close>

lemma load_lines_invariant:
  assumes "load_lines gi lines tiles w rs = Inr tm"
    and "list_all (\<lambda>row. length row \<le> w) rs"
  shows "grid_height tm = int (length (rows tm)) \<and> 0 \<le> grid_width tm
       \<and> list_all (\<lambda>row. int (length row) \<le> grid_width tm) (rows tm)"
  using assms
proof (induction lines arbitrary: tiles w rs)
  case Nil
  then show ?case by (auto split: option.splits simp add: list_all_iff)
next
  case (Cons line lines)
  show ?case
  proof (cases "clean_line line = []")
    case True
    then show ?thesis using Cons by simp
  next
    case False
    show ?thesis
    proof (cases tiles)
      case None
      then show ?thesis using Cons False
        by (auto simp add: Let_def split: if_splits option.splits)
    next
      case (Some t)
      then obtain row where "parse_tiles (split_on CHR '','' (clean_line line)) = Inr row"
        and rest: "load_lines gi lines tiles (max w (length row)) (rs @ [row]) = Inr tm"
        using Cons.prems(1) False by (auto simp add: Let_def split: sum.splits)
      have "list_all (\<lambda>r. length r \<le> max w (length row)) (rs @ [row])"
        using Cons.prems(2) by (auto simp add: list_all_iff)
      then show ?thesis using Cons.IH [OF rest] by simp
    qed
  qed
qed

lemma load_resource_invariant:
  assumes "TileMapManager_load_resource gi lines = Inr tm"
  shows "grid_height tm = int (length (rows tm)) \<and> 0 \<le> grid_width tm
       \<and> list_all (\<lambda>row. int (length row) \<le> grid_width tm) (rows tm)"
  using assms load_lines_invariant [of gi lines None 0 "[]" tm]
  by (simp add: TileMapManager_load_resource_def)

lemma load_lines_blank:
  "list_all (\<lambda>line. clean_line line = []) lines \<Longrightarrow>
   load_lines gi lines (Some t) w rs =
     Inr \<lparr>tileset = t, grid_width = int w, grid_height = int (length rs), rows = rs\<rparr>"
  by (induction lines) simp_all

lemma load_resource_no_rows:
  assumes "take 6 (clean_line line) = ''tiles:'' \<or> take 6 (clean_line line) = ''tiles=''"
    and "gi (drop 6 (clean_line line)) = None"
    and "list_all (\<lambda>line. clean_line line = []) before"
    and "list_all (\<lambda>line. clean_line line = []) after"
  shows "TileMapManager_load_resource gi (before @ line # after) =
           Inr \<lparr>tileset = drop 6 (clean_line line), grid_width = 0, grid_height = 0, rows = []\<rparr>"
proof -
  have pre: "load_lines gi (before @ rest) None w rs = load_lines gi rest None w rs" for rest w rs
    using assms(3) by (induction before) simp_all
  have content: "clean_line line \<noteq> []" using assms(1) by auto
  show ?thesis
    unfolding TileMapManager_load_resource_def pre
    using assms(1,2) content
      load_lines_blank [OF assms(4), of gi "drop 6 (clean_line line)" 0 "[]"]
    by (simp add: Let_def)
qed

text \<open>
  C6.  On a map of positive width and height whose height is its number of rows (which
  the loader guarantees), \<open>get\<close> reads row \<open>y mod height\<close> and column \<open>x mod width\<close>
  for all integers \<open>x\<close> and \<open>y\<close>, and returns the string \<open>0\<close> when that column is at
  or beyond the end of the stored row.  On a grid of 4 by 3, \<open>get(4, 0)\<close> is
  \<open>get(0, 0)\<close> and \<open>get(-1, 0)\<close> is \<open>get(3, 0)\<close>.
\<close>

theorem TileMap_get_wraps:
  assumes "1 \<le> grid_width tm" and "1 \<le> grid_height tm"
    and "grid_height tm = int (length (rows tm))"
  shows "TileMap_get tm x y =
           Inr (if length (rows tm ! nat (y mod grid_height tm)) \<le> nat (x mod grid_width tm)
                then ''0''
                else rows tm ! nat (y mod grid_height tm) ! nat (x mod grid_width tm))
       \<and> (grid_width tm = 4 \<and> grid_height tm = 3 \<longrightarrow>
            TileMap_get tm 4 0 = TileMap_get tm 0 0
            \<and> TileMap_get tm (- 1) 0 = TileMap_get tm 3 0)"
proof -
  have wrap: "grid_width tm = 4 \<Longrightarrow>
                TileMap_get tm 4 0 = TileMap_get tm 0 0
                \<and> TileMap_get tm (- 1) 0 = TileMap_get tm 3 0"
    by (simp add: TileMap_get_def)
  show ?thesis using TileMap_get_in_grid [OF assms] wrap by blast
qed

theorem TileMap_get_wraps_witness:
  "1 \<le> grid_width example_grid
   \<and> 1 \<le> grid_height example_grid
   \<and> grid_height example_grid = int (length (rows example_grid))
   \<and> grid_width example_grid = 4
   \<and> grid_height example_grid = 3
   \<and> TileMap_get example_grid 4 0 = TileMap_get example_grid 0 0
   \<and> TileMap_get example_grid (- 1) 0 = TileMap_get example_grid 3 0
   \<and> TileMap_get example_grid (- 1) 0 = Inr ''4''
   \<and> TileMap_get example_grid 6 (- 2) = Inr ''0''"
proof -
  have h: "1 \<le> grid_width example_grid" "1 \<le> grid_height example_grid"
    "grid_height example_grid = int (length (rows example_grid))"
    by (simp_all add: example_grid_def)
  have d: "grid_width example_grid = 4" "grid_height example_grid = 3"
    by (simp_all add: example_grid_def)
  have wrap: "TileMap_get example_grid 4 0 = TileMap_get example_grid 0 0"
    "TileMap_get example_grid (- 1) 0 = TileMap_get example_grid 3 0"
    using TileMap_get_wraps [OF h, of 0 0] d by blast+
  have a: "TileMap_get example_grid (- 1) 0 = Inr ''4''"
    by (simp add: tilemap_defs)
  have b: "TileMap_get example_grid 6 (- 2) = Inr ''0''"
    by (simp add: tilemap_defs)
  show ?thesis using h d wrap a b by blast
qed

text \<open>
  C10.  A map whose width or height is 0 makes every \<open>get(x, y)\<close> raise
  \<open>ZeroDivisionError\<close>; a file with a \<open>tiles:\<close> line (or \<open>tiles=\<close>) whose image
  loads, and no row lines, is parsed to such a map, of width 0 and height 0; and whenever
  \<open>get\<close> returns a value on a map that the loader returned, the width and the height are
  positive, while on such a map every \<open>get\<close> does return a value.
\<close>

theorem TileMap_get_zero_dimension:
  "(grid_width tm = 0 \<or> grid_height tm = 0 \<longrightarrow> TileMap_get tm x y = Inl ZeroDivisionError)
   \<and> ((take 6 (clean_line line) = ''tiles:'' \<or> take 6 (clean_line line) = ''tiles='')
      \<and> gi (drop 6 (clean_line line)) = None
      \<and> list_all (\<lambda>line. clean_line line = []) before
      \<and> list_all (\<lambda>line. clean_line line = []) after \<longrightarrow>
      TileMapManager_load_resource gi (before @ line # after) =
        Inr \<lparr>tileset = drop 6 (clean_line line), grid_width = 0, grid_height = 0, rows = []\<rparr>
      \<and> TileMap_get
           \<lparr>tileset = drop 6 (clean_line line), grid_width = 0, grid_height = 0, rows = []\<rparr> x y
          = Inl ZeroDivisionError)
   \<and> (TileMapManager_load_resource gj lines = Inr tm2 \<longrightarrow>
        (0 < grid_width tm2 \<and> 0 < grid_height tm2) = (\<exists>v. TileMap_get tm2 x y = Inr v))"
proof (intro conjI impI)
  assume "grid_width tm = 0 \<or> grid_height tm = 0"
  then show "TileMap_get tm x y = Inl ZeroDivisionError"
    by (auto simp add: TileMap_get_def)
next
  assume h: "(take 6 (clean_line line) = ''tiles:'' \<or> take 6 (clean_line line) = ''tiles='')
      \<and> gi (drop 6 (clean_line line)) = None
      \<and> list_all (\<lambda>line. clean_line line = []) before
      \<and> list_all (\<lambda>line. clean_line line = []) after"
  then show "TileMapManager_load_resource gi (before @ line # after) =
        Inr \<lparr>tileset = drop 6 (clean_line line), grid_width = 0, grid_height = 0, rows = []\<rparr>"
    by (intro load_resource_no_rows) blast+
  show "TileMap_get
           \<lparr>tileset = drop 6 (clean_line line), grid_width = 0, grid_height = 0, rows = []\<rparr> x y
          = Inl ZeroDivisionError"
    by (simp add: TileMap_get_def)
next
  assume loaded: "TileMapManager_load_resource gj lines = Inr tm2"
  note inv = load_resource_invariant [OF loaded]
  show "(0 < grid_width tm2 \<and> 0 < grid_height tm2) = (\<exists>v. TileMap_get tm2 x y = Inr v)"
  proof
    assume "0 < grid_width tm2 \<and> 0 < grid_height tm2"
    then have "1 \<le> grid_width tm2" "1 \<le> grid_height tm2" by simp_all
    then show "\<exists>v. TileMap_get tm2 x y = Inr v"
      using TileMap_get_in_grid [of tm2 x y] inv by simp
  next
    assume "\<exists>v. TileMap_get tm2 x y = Inr v"
    then have "grid_width tm2 \<noteq> 0 \<and> grid_height tm2 \<noteq> 0"
      by (auto simp add: TileMap_get_def Let_def split: if_splits)
    moreover have "0 \<le> grid_height tm2" using inv by simp
    ultimately show "0 < grid_width tm2 \<and> 0 < grid_height tm2" using inv by simp
  qed
qed

theorem TileMap_get_zero_dimension_witness:
  "grid_width empty_grid = 0
   \<and> TileMap_get empty_grid 3 (- 7) = Inl ZeroDivisionError
   \<and> take 6 (clean_line ''Tiles = terrain  # the tile set'') = ''tiles=''
   \<and> image_found (drop 6 (clean_line ''Tiles = terrain  # the tile set'')) = None
   \<and> TileMapManager_load_resource image_found
        [''# a map without rows'', ''Tiles = terrain  # the tile set'', ''   '', ''; end'']
       = Inr \<lparr>tileset = ''terrain'', grid_width = 0, grid_height = 0, rows = []\<rparr>
   \<and> TileMapManager_load_resource image_found [''tiles: t'', ''1,2,3,4'', ''5,6'', ''bird,0,7,8'']
       = Inr \<lparr>tileset = ''t'', grid_width = 4, grid_height = 3,
              rows = [[''1'', ''2'', ''3'', ''4''], [''5'', ''6''], [''bird'', ''0'', ''7'', ''8'']]\<rparr>
   \<and> (\<exists>v. TileMap_get \<lparr>tileset = ''t'', grid_width = 4, grid_height = 3,
              rows = [[''1'', ''2'', ''3'', ''4''], [''5'', ''6''], [''bird'', ''0'', ''7'', ''8'']]\<rparr>
              3 (- 7) = Inr v)"
proof -
  have zero: "grid_width empty_grid = 0" by (simp add: empty_grid_def)
  have line: "take 6 (clean_line ''Tiles = terrain  # the tile set'') = ''tiles=''"
    "drop 6 (clean_line ''Tiles = terrain  # the tile set'') = ''terrain''"
    by (simp_all add: tilemap_defs)
  have found: "image_found (drop 6 (clean_line ''Tiles = terrain  # the tile set'')) = None"
    by (simp add: image_found_def)
  have blank: "list_all (\<lambda>line. clean_line line = []) [''# a map without rows'']"
    "list_all (\<lambda>line. clean_line line = []) [''   '', ''; end'']"
    by (simp_all add: tilemap_defs)
  have loaded: "TileMapManager_load_resource image_found
                  [''tiles: t'', ''1,2,3,4'', ''5,6'', ''bird,0,7,8'']
       = Inr \<lparr>tileset = ''t'', grid_width = 4, grid_height = 3,
              rows = [[''1'', ''2'', ''3'', ''4''], [''5'', ''6''], [''bird'', ''0'', ''7'', ''8'']]\<rparr>"
    by (simp add: tilemap_defs)
  note inst = TileMap_get_zero_dimension [of empty_grid 3 "- 7" "''Tiles = terrain  # the tile set''"
      image_found "[''# a map without rows'']" "[''   '', ''; end'']" image_found
      "[''tiles: t'', ''1,2,3,4'', ''5,6'', ''bird,0,7,8'']"
      "\<lparr>tileset = ''t'', grid_width = 4, grid_height = 3,
              rows = [[''1'', ''2'', ''3'', ''4''], [''5'', ''6''], [''bird'', ''0'', ''7'', ''8'']]\<rparr>"]
  have a: "TileMap_get empty_grid 3 (- 7) = Inl ZeroDivisionError"
    using inst zero by blast
  have b: "TileMapManager_load_resource image_found
        ([''# a map without rows''] @ ''Tiles = terrain  # the tile set'' # [''   '', ''; end''])
       = Inr \<lparr>tileset = drop 6 (clean_line ''Tiles = terrain  # the tile set''),
              grid_width = 0, grid_height = 0, rows = []\<rparr>"
    using inst line(1) found blank by blast
  have c: "\<exists>v. TileMap_get \<lparr>tileset = ''t'', grid_width = 4, grid_height = 3,
              rows = [[''1'', ''2'', ''3'', ''4''], [''5'', ''6''], [''bird'', ''0'', ''7'', ''8'']]\<rparr>
              3 (- 7) = Inr v"
    using inst loaded by simp
  show ?thesis using zero a line(1) found b loaded c by (simp add: line(2))
qed


section \<open>Key hold counters\<close>

lemmas input_defs = query_after_def InputHandler_process_def InputHandler_update_keys_def
  InputHandler_key_def dict_del_def py_lower_def py_strip_def py_isspace_def py_lower_char_def

lemma map_of_dict_set:
  "map_of (dict_set k v d) k' = (if k' = k then Some v else map_of d k')"
  by (induction d) auto

lemma map_of_dict_del: "map_of (dict_del k d) k = None"
  by (induction d) (auto simp add: dict_del_def)

lemma map_of_update_keys:
  "map_of (InputHandler_update_keys ks) k = map_option (\<lambda>c. c + 1) (map_of ks k)"
  by (induction ks) (auto simp add: InputHandler_update_keys_def)

lemma map_of_update_keys_funpow:
  "map_of ((InputHandler_update_keys ^^ n) ks) k = map_option (\<lambda>c. c + int n) (map_of ks k)"
proof (induction n)
  case 0
  show ?case by (simp add: option.map_ident)
next
  case (Suc n)
  show ?case
    by (simp add: map_of_update_keys Suc.IH option.map_comp comp_def ac_simps)
qed

lemma run_input_updates:
  "run_input ks (replicate n Update @ steps) = run_input ((InputHandler_update_keys ^^ n) ks) steps"
  by (induction n arbitrary: ks) (simp_all add: funpow_swap1)

lemma run_input_press:
  "run_input ks (Notify (KeyDown k False) # replicate n Update @ steps)
     = run_input ((InputHandler_update_keys ^^ n) (dict_set k 1 ks)) steps"
  by (simp add: InputHandler_process_def run_input_updates)

lemma held_counter:
  "map_of ((InputHandler_update_keys ^^ n) (dict_set k 1 ks)) k = Some (1 + int n)"
  by (simp add: map_of_update_keys_funpow map_of_dict_set)

text \<open>
  C4.  The claim: the queries after each of the five updates that follow a press read
  1, 2, 3, 4, 5.  The press itself stores 1 and each update adds 1, so the query after
  the first update reads 2 and the one after the fifth reads 6.
\<close>

theorem key_counter_after_update_counterexample:
  "query_after [] [Notify (KeyDown ''a'' False), Update] ''a'' \<noteq> Inr 1
   \<and> query_after [] [Notify (KeyDown ''a'' False), Update, Update, Update, Update, Update] ''a''
       \<noteq> Inr 5"
  by (simp add: input_defs)

text \<open>
  C4, amended.  For a key name \<open>k\<close> in the form the handler stores (lowercase, no
  surrounding whitespace) and any state of the other keys: after a press notification
  and \<open>n\<close> updates the query reads \<open>1 + n\<close>, so the press and the next four updates
  read 1, 2, 3, 4, 5; the same holds when an update comes just before the press, as in
  the per-frame call of the library, which runs \<open>update\<close> and then hands the pending
  events to \<open>process\<close>; a release notification after the updates removes the entry
  and the query reads 0; and a repeat press notification among the updates changes
  nothing, the query after \<open>m\<close> more updates reading \<open>1 + n + m\<close>.
\<close>

theorem key_hold_counter:
  assumes "py_lower (py_strip k) = k"
  shows "query_after ks (Notify (KeyDown k False) # replicate n Update) k = Inr (1 + int n)
       \<and> map (\<lambda>i. query_after ks (Notify (KeyDown k False) # replicate i Update) k)
             [0, 1, 2, 3, 4]
           = [Inr 1, Inr 2, Inr 3, Inr 4, Inr 5]
       \<and> query_after ks (Update # Notify (KeyDown k False) # replicate n Update) k
           = Inr (1 + int n)
       \<and> query_after ks (Notify (KeyDown k False) # replicate n Update @ [Notify (KeyUp k)]) k
           = Inr 0
       \<and> query_after ks (Notify (KeyDown k False) # replicate n Update
                           @ Notify (KeyDown k True) # replicate m Update) k
           = Inr (1 + int n + int m)"
proof -
  let ?held = "(InputHandler_update_keys ^^ n) (dict_set k 1 ks)"
  have one: "run_input s (Notify (KeyDown k False) # replicate i Update)
               = Inr ((InputHandler_update_keys ^^ i) (dict_set k 1 s))" for i s
    using run_input_press [of s k i "[]"] by simp
  have q1: "query_after s (Notify (KeyDown k False) # replicate i Update) k = Inr (1 + int i)" for i s
    unfolding query_after_def one by (simp add: InputHandler_key_def assms held_counter)
  have q0: "query_after ks (Update # Notify (KeyDown k False) # replicate n Update) k
              = Inr (1 + int n)"
    using q1 [of "InputHandler_update_keys ks" n] by (simp add: query_after_def)
  have two: "run_input ks (Notify (KeyDown k False) # replicate n Update @ [Notify (KeyUp k)])
               = Inr (dict_del k ?held)"
    using run_input_press [of ks k n "[Notify (KeyUp k)]"]
    by (simp add: InputHandler_process_def held_counter)
  have three: "run_input ks (Notify (KeyDown k False) # replicate n Update
                              @ Notify (KeyDown k True) # replicate m Update)
               = Inr ((InputHandler_update_keys ^^ m) ?held)"
    using run_input_press [of ks k n "Notify (KeyDown k True) # replicate m Update"]
      run_input_updates [of "?held" m "[]"]
    by (simp add: InputHandler_process_def)
  have q3: "map_of ((InputHandler_update_keys ^^ m) ?held) k = Some (1 + int n + int m)"
    by (simp add: map_of_update_keys_funpow map_of_dict_set)
  have q2: "query_after ks (Notify (KeyDown k False) # replicate n Update @ [Notify (KeyUp k)]) k
           = Inr 0"
    unfolding query_after_def two by (simp add: InputHandler_key_def assms map_of_dict_del)
  have q4: "query_after ks (Notify (KeyDown k False) # replicate n Update
                           @ Notify (KeyDown k True) # replicate m Update) k
           = Inr (1 + int n + int m)"
    unfolding query_after_def three by (simp add: InputHandler_key_def assms q3)
  have q5: "map (\<lambda>i. query_after ks (Notify (KeyDown k False) # replicate i Update) k)
             [0, 1, 2, 3, 4]
           = [Inr 1, Inr 2, Inr 3, Inr 4, Inr 5]"
    unfolding q1 by simp
  show ?thesis using q1 [of ks n] q5 q0 q2 q4 by blast
qed

theorem key_hold_counter_witness:
  "py_lower (py_strip ''a'') = ''a''
   \<and> query_after [(''b'', 7)] (Notify (KeyDown ''a'' False) # replicate 4 Update) ''a'' = Inr 5
   \<and> query_after [(''b'', 7)] (Update # Notify (KeyDown ''a'' False) # replicate 4 Update) ''a''
       = Inr 5
   \<and> query_after [(''b'', 7)]
        (Notify (KeyDown ''a'' False) # replicate 4 Update @ [Notify (KeyUp ''a'')]) ''a''
       = Inr 0
   \<and> query_after [(''b'', 7)]
        (Notify (KeyDown ''a'' False) # replicate 4 Update
          @ Notify (KeyDown ''a'' True) # replicate 1 Update) ''a''
       = Inr 6"
proof -
  have h: "py_lower (py_strip ''a'') = ''a''"
    by (simp add: py_lower_def py_strip_def py_isspace_def py_lower_char_def)
  show ?thesis using h key_hold_counter [OF h, of "[(''b'', 7)]" 4 1] by simp
qed


section \<open>Joystick axes\<close>

lemma update_buttons_append:
  "update_buttons dev (xs @ ys) bs =
     (case update_buttons dev xs bs of Inl e \<Rightarrow> Inl e | Inr bs' \<Rightarrow> update_buttons dev ys bs')"
  by (induction xs arbitrary: bs) simp_all

lemma update_axes_append:
  "update_axes dev (xs @ ys) st =
     (case update_axes dev xs st of Inl e \<Rightarrow> Inl e | Inr st' \<Rightarrow> update_axes dev ys st')"
  by (induction xs arbitrary: st) (simp_all split: sum.splits)

lemma update_buttons_range:
  "m \<le> length bs \<Longrightarrow>
   \<exists>bs'. update_buttons dev [0 ..< m] bs = Inr bs' \<and> length bs' = length bs"
proof (induction m)
  case 0
  show ?case by simp
next
  case (Suc m)
  then obtain bs' where "update_buttons dev [0 ..< m] bs = Inr bs'" "length bs' = length bs"
    by auto
  with Suc.prems show ?case by (simp add: update_buttons_append)
qed

lemma axis_step_ok:
  assumes "a < length ax" and "length dx = 2 * length ax"
  shows "axis_step a v (ax, dx) =
           Inr (ax[a := v], dx[a * 2 := neg_count v (dx ! (a * 2)),
                               a * 2 + 1 := pos_count v (dx ! (a * 2 + 1))])"
  using assms by (simp add: axis_step_def neg_count_def pos_count_def Let_def)

text \<open>The number of binary digits of a number below \<open>2 ^ k\<close> is at most \<open>k\<close>.\<close>

lemma bit_length_le: "n < 2 ^ k \<Longrightarrow> bit_length n \<le> int k"
proof (induction k arbitrary: n)
  case 0
  then show ?case by (simp add: bit_length.simps [of n])
next
  case (Suc k)
  show ?case
  proof (cases "n \<le> 0")
    case True
    then show ?thesis by (simp add: bit_length.simps [of n])
  next
    case False
    have "n div 2 < 2 ^ k" using Suc.prems by simp
    then have "bit_length (n div 2) \<le> int k" by (rule Suc.IH)
    then show ?thesis using False by (simp add: bit_length.simps [of n])
  qed
qed

lemma bit_length_one: "bit_length 1 = 1"
  by code_simp

text \<open>A quotient below \<open>2 ^ 1023\<close> is rounded to a finite float.\<close>

lemma round_ratio_finite:
  assumes "floor_log2 p q + e \<le> 1022"
  shows "\<exists>m e'. round_ratio s p q e = Float s m e'"
  using assms by (auto simp add: round_ratio_def Let_def max_def)

lemma float_of_int_small:
  assumes "- 32768 \<le> v" and "v \<le> 32767"
  shows "\<exists>m e. float_of_int v = Inr (Float (v < 0) m e)"
proof -
  have "\<bar>v\<bar> < 2 ^ 16" using assms by simp
  then have "bit_length \<bar>v\<bar> \<le> int 16" by (rule bit_length_le)
  then have "floor_log2 \<bar>v\<bar> 1 + 0 \<le> 1022"
    by (simp add: floor_log2_def Let_def bit_length_one)
  then obtain m e where "round_ratio (v < 0) \<bar>v\<bar> 1 0 = Float (v < 0) m e"
    using round_ratio_finite by blast
  then show ?thesis by (simp add: float_of_int_def)
qed

lemma divisor_values:
  "float_literal 32767 1 = Float False 9006924376834048 (- 38)"
  "float_literal 32768 1 = Float False 4503599627370496 (- 37)"
  by code_simp+

lemma float_is_zero_neg: "float_is_zero (float_neg x) = float_is_zero x"
  by (cases x) (simp_all add: float_is_zero_def float_neg_def)

text \<open>The normalised value of a 16-bit raw value exists, and is the quotient that the
  claim words: by 32768.0 for a negative raw value, by 32767.0 otherwise.\<close>

lemma axis_value_normalised:
  assumes "- 32768 \<le> raw" and "raw \<le> 32767"
  shows "\<exists>x q. float_of_int raw = Inr x
           \<and> float_div x (if raw < 0 then float_literal 32768 1 else float_literal 32767 1) = Inr q
           \<and> axis_value a raw =
               Inr (if a = 1 then (if float_is_zero q then Float False 0 0 else float_neg q)
                    else q)"
proof -
  obtain m e where x: "float_of_int raw = Inr (Float (raw < 0) m e)"
    using float_of_int_small [OF assms] by blast
  show ?thesis
  proof (cases "raw = 0")
    case True
    have "float_of_int 0 = Inr (Float False 0 0)"
      by (simp add: float_of_int_def round_ratio_def)
    then show ?thesis using True
      by (simp add: axis_value_def divisor_values float_div_def round_ratio_def
          float_is_zero_def float_neg_def)
  next
    case False
    then show ?thesis using x
      by (cases "raw < 0")
        (simp_all add: axis_value_def divisor_values float_div_def float_is_zero_neg Let_def)
  qed
qed

lemma axis_value_ok:
  assumes "- 32768 \<le> raw" and "raw \<le> 32767"
  shows "\<exists>v. axis_value a raw = Inr v"
  using axis_value_normalised [OF assms, of a] by blast

text \<open>The axis loop over the first \<open>m\<close> axes: those axes have their new value and
  counters, the others are as before.\<close>

lemma update_axes_range:
  assumes "length dx = 2 * length ax" and "m \<le> length ax"
    and "\<And>a. a < m \<Longrightarrow> axis_value a (axis_values dev ! a) = Inr (val a)"
  shows "\<exists>ax' dx'. update_axes dev [0 ..< m] (ax, dx) = Inr (ax', dx')
           \<and> length ax' = length ax \<and> length dx' = length dx
           \<and> (\<forall>a < m. ax' ! a = val a
                  \<and> dx' ! (a * 2) = neg_count (val a) (dx ! (a * 2))
                  \<and> dx' ! (a * 2 + 1) = pos_count (val a) (dx ! (a * 2 + 1)))
           \<and> (\<forall>a \<ge> m. ax' ! a = ax ! a \<and> dx' ! (a * 2) = dx ! (a * 2) \<and> dx' ! (a * 2 + 1) = dx ! (a * 2 + 1))"
  using assms(2,3)
proof (induction m)
  case 0
  show ?case by simp
next
  case (Suc m)
  have "m \<le> length ax" using Suc.prems(1) by simp
  moreover have "\<And>a. a < m \<Longrightarrow> axis_value a (axis_values dev ! a) = Inr (val a)"
    using Suc.prems(2) by simp
  ultimately obtain ax' dx' where run: "update_axes dev [0 ..< m] (ax, dx) = Inr (ax', dx')"
    and len: "length ax' = length ax" "length dx' = length dx"
    and seen: "\<forall>a < m. ax' ! a = val a
                  \<and> dx' ! (a * 2) = neg_count (val a) (dx ! (a * 2))
                  \<and> dx' ! (a * 2 + 1) = pos_count (val a) (dx ! (a * 2 + 1))"
    and rest: "\<forall>a \<ge> m. ax' ! a = ax ! a \<and> dx' ! (a * 2) = dx ! (a * 2) \<and> dx' ! (a * 2 + 1) = dx ! (a * 2 + 1)"
    using Suc.IH by blast
  let ?v = "val m"
  have vm: "axis_value m (axis_values dev ! m) = Inr ?v" using Suc.prems(2) by simp
  have m: "m < length ax'" using Suc.prems len by simp
  have l2: "length dx' = 2 * length ax'" using len assms(1) by simp
  have step: "axis_step m ?v (ax', dx') =
           Inr (ax'[m := ?v], dx'[m * 2 := neg_count ?v (dx' ! (m * 2)),
                               m * 2 + 1 := pos_count ?v (dx' ! (m * 2 + 1))])"
    using m l2 by (rule axis_step_ok)
  let ?ax = "ax'[m := ?v]"
  let ?dx = "dx'[m * 2 := neg_count ?v (dx' ! (m * 2)), m * 2 + 1 := pos_count ?v (dx' ! (m * 2 + 1))]"
  have run': "update_axes dev [0 ..< Suc m] (ax, dx) = Inr (?ax, ?dx)"
    by (simp add: update_axes_append run vm step)
  have old: "dx' ! (m * 2) = dx ! (m * 2)" "dx' ! (m * 2 + 1) = dx ! (m * 2 + 1)"
    using rest by simp_all
  have i0: "m * 2 < length dx'" and i1: "m * 2 + 1 < length dx'" using m l2 by simp_all
  have A: "\<forall>a < Suc m. ?ax ! a = val a
                  \<and> ?dx ! (a * 2) = neg_count (val a) (dx ! (a * 2))
                  \<and> ?dx ! (a * 2 + 1) = pos_count (val a) (dx ! (a * 2 + 1))"
  proof (intro allI impI)
    fix a assume "a < Suc m"
    then consider "a < m" | "a = m" by linarith
    then show "?ax ! a = val a
                  \<and> ?dx ! (a * 2) = neg_count (val a) (dx ! (a * 2))
                  \<and> ?dx ! (a * 2 + 1) = pos_count (val a) (dx ! (a * 2 + 1))"
    proof cases
      case 1
      then have ne: "a \<noteq> m" "a * 2 \<noteq> m * 2" "a * 2 \<noteq> m * 2 + 1" "a * 2 + 1 \<noteq> m * 2" "a * 2 + 1 \<noteq> m * 2 + 1"
        by presburger+
      show ?thesis using seen 1 ne by simp
    next
      case 2
      show ?thesis using 2 m i0 i1 old by simp
    qed
  qed
  have B: "\<forall>a \<ge> Suc m. ?ax ! a = ax ! a \<and> ?dx ! (a * 2) = dx ! (a * 2) \<and> ?dx ! (a * 2 + 1) = dx ! (a * 2 + 1)"
  proof (intro allI impI)
    fix a assume a: "Suc m \<le> a"
    then have ne: "a \<noteq> m" "a * 2 \<noteq> m * 2" "a * 2 \<noteq> m * 2 + 1" "a * 2 + 1 \<noteq> m * 2" "a * 2 + 1 \<noteq> m * 2 + 1"
      by presburger+
    have "m \<le> a" using a by simp
    then show "?ax ! a = ax ! a \<and> ?dx ! (a * 2) = dx ! (a * 2) \<and> ?dx ! (a * 2 + 1) = dx ! (a * 2 + 1)"
      using rest ne by simp
  qed
  show ?case using run' len A B by simp
qed

text \<open>The floats 0.2 and 0.5 against the two thresholds.\<close>

lemma deadzone_values:
  "float_less (float_literal 2 10) (float_neg (float_literal 333 1000)) = False"
  "float_less (float_literal 333 1000) (float_literal 2 10) = False"
  "float_less (float_literal 5 10) (float_neg (float_literal 333 1000)) = False"
  "float_less (float_literal 333 1000) (float_literal 5 10) = True"
  by code_simp+

text \<open>
  C9.  For a joystick whose lists have the lengths that SDL reports (as \<open>__init__\<close>
  makes them) and raw values of 16 bits, an update succeeds, and for every axis \<open>a\<close>:
  the stored value is the normalised value; the positive counter at \<open>2a + 1\<close> is one
  more than before when the value is above the float 0.333 and 0 otherwise, and the
  negative counter at \<open>2a\<close> likewise for a value below -0.333, the float 0.333 being
  the number \<open>5998794703657501 / 2 ^ 54\<close>.  The normalised value
  of a raw value is its float quotient by 32768.0 when it is negative and by 32767.0
  otherwise; on axis 1 it is the negated quotient, and positive zero when the quotient
  equals zero.  So the raw value 0 gives positive zero on axis 1, where the negated
  quotient is the negative zero.  A value of 0.2 sets both counters to 0, whatever they
  were; a value of 0.5 over three frames takes the positive counter through 1, 2, 3 and
  leaves the negative counter at 0.
\<close>

theorem Joystick_update_axis:
  assumes "length (buttons j) = length (button_states dev)"
    and "length (axis j) = length (axis_values dev)"
    and "length (daxis j) = 2 * length (axis_values dev)"
    and "a < length (axis_values dev)"
    and "list_all (\<lambda>r. - 32768 \<le> r \<and> r \<le> 32767) (axis_values dev)"
  shows "(\<exists>j' v. Joystick_update dev j = Inr j'
            \<and> axis_value a (axis_values dev ! a) = Inr v
            \<and> axis j' ! a = v
            \<and> daxis j' ! (a * 2 + 1)
                = (if float_less (float_literal 333 1000) v then daxis j ! (a * 2 + 1) + 1 else 0)
            \<and> daxis j' ! (a * 2 + 0)
                = (if float_less v (float_neg (float_literal 333 1000))
                   then daxis j ! (a * 2 + 0) + 1 else 0))
       \<and> (- 32768 \<le> raw \<and> raw \<le> 32767 \<longrightarrow>
            (\<exists>x q. float_of_int raw = Inr x
               \<and> float_div x (if raw < 0 then float_literal 32768 1 else float_literal 32767 1)
                   = Inr q
               \<and> axis_value a raw =
                   Inr (if a = 1 then (if float_is_zero q then Float False 0 0 else float_neg q)
                        else q)))
       \<and> (float_less (float_literal 333 1000) (Float s m e)
            \<longleftrightarrow> 5998794703657501 / 2 ^ 54 < float_value s m e)
       \<and> (float_less (Float s m e) (float_neg (float_literal 333 1000))
            \<longleftrightarrow> float_value s m e < - (5998794703657501 / 2 ^ 54))
       \<and> float_div (Float False 0 0) (float_literal 32768 1) = Inr (Float False 0 0)
       \<and> float_neg (Float False 0 0) = Float True 0 0
       \<and> axis_value 1 0 = Inr (Float False 0 0)
       \<and> axis_step 0 (float_literal 2 10) ([v0], [n0, p0]) = Inr ([float_literal 2 10], [0, 0])
       \<and> axis_step 0 (float_literal 5 10) ([v0], [0, 0]) = Inr ([float_literal 5 10], [0, 1])
       \<and> axis_step 0 (float_literal 5 10) ([float_literal 5 10], [0, 1])
           = Inr ([float_literal 5 10], [0, 2])
       \<and> axis_step 0 (float_literal 5 10) ([float_literal 5 10], [0, 2])
           = Inr ([float_literal 5 10], [0, 3])"
proof -
  obtain bs where bs: "update_buttons dev [0 ..< length (button_states dev)] (buttons j) = Inr bs"
    using update_buttons_range [of "length (button_states dev)" "buttons j" dev] assms(1) by auto
  have l2: "length (daxis j) = 2 * length (axis j)" using assms(2,3) by simp
  have le: "length (axis_values dev) \<le> length (axis j)" using assms(2) by simp
  define val where "val b = projr (axis_value b (axis_values dev ! b))" for b
  have ok: "axis_value b (axis_values dev ! b) = Inr (val b)" if "b < length (axis_values dev)" for b
  proof -
    have "axis_values dev ! b \<in> set (axis_values dev)" using that by simp
    then have "- 32768 \<le> axis_values dev ! b \<and> axis_values dev ! b \<le> 32767"
      using assms(5) by (simp add: list_all_iff)
    then obtain v where "axis_value b (axis_values dev ! b) = Inr v"
      using axis_value_ok by blast
    then show ?thesis by (simp add: val_def)
  qed
  obtain ax' dx' where run: "update_axes dev [0 ..< length (axis_values dev)] (axis j, daxis j) = Inr (ax', dx')"
    and res: "\<forall>b < length (axis_values dev). ax' ! b = val b
                  \<and> dx' ! (b * 2) = neg_count (val b) (daxis j ! (b * 2))
                  \<and> dx' ! (b * 2 + 1) = pos_count (val b) (daxis j ! (b * 2 + 1))"
    using update_axes_range [OF l2 le ok] by blast
  have upd: "Joystick_update dev j = Inr \<lparr>buttons = bs, axis = ax', daxis = dx'\<rparr>"
    by (simp add: Joystick_update_def bs run)
  have first: "\<exists>j' v. Joystick_update dev j = Inr j'
            \<and> axis_value a (axis_values dev ! a) = Inr v
            \<and> axis j' ! a = v
            \<and> daxis j' ! (a * 2 + 1)
                = (if float_less (float_literal 333 1000) v then daxis j ! (a * 2 + 1) + 1 else 0)
            \<and> daxis j' ! (a * 2 + 0)
                = (if float_less v (float_neg (float_literal 333 1000))
                   then daxis j ! (a * 2 + 0) + 1 else 0)"
    using upd res assms(4) ok [OF assms(4)] by (simp add: neg_count_def pos_count_def)
  have zero: "float_div (Float False 0 0) (float_literal 32768 1) = Inr (Float False 0 0)"
    "float_neg (Float False 0 0) = Float True 0 0"
    "axis_value 1 0 = Inr (Float False 0 0)"
    by code_simp+
  have steps: "axis_step 0 (float_literal 2 10) ([v0], [n0, p0]) = Inr ([float_literal 2 10], [0, 0])"
    "axis_step 0 (float_literal 5 10) ([v0], [0, 0]) = Inr ([float_literal 5 10], [0, 1])"
    "axis_step 0 (float_literal 5 10) ([float_literal 5 10], [0, 1])
           = Inr ([float_literal 5 10], [0, 2])"
    "axis_step 0 (float_literal 5 10) ([float_literal 5 10], [0, 2])
           = Inr ([float_literal 5 10], [0, 3])"
    by (simp_all add: axis_step_def deadzone_values)
  have second: "- 32768 \<le> raw \<and> raw \<le> 32767 \<longrightarrow>
            (\<exists>x q. float_of_int raw = Inr x
               \<and> float_div x (if raw < 0 then float_literal 32768 1 else float_literal 32767 1)
                   = Inr q
               \<and> axis_value a raw =
                   Inr (if a = 1 then (if float_is_zero q then Float False 0 0 else float_neg q)
                        else q))"
    using axis_value_normalised [of raw a] by blast
  show ?thesis using first second threshold_value [of s m e] zero steps by blast
qed

theorem Joystick_update_axis_witness:
  "length (buttons (Joystick_init example_pad)) = length (button_states example_pad)
   \<and> length (axis (Joystick_init example_pad)) = length (axis_values example_pad)
   \<and> length (daxis (Joystick_init example_pad)) = 2 * length (axis_values example_pad)
   \<and> (1 :: nat) < length (axis_values example_pad)
   \<and> list_all (\<lambda>r. - 32768 \<le> r \<and> r \<le> 32767) (axis_values example_pad)
   \<and> axis_values example_pad ! 1 = - 16384
   \<and> axis_value 1 (- 16384) = Inr (float_literal 5 10)
   \<and> (\<exists>j'. Joystick_update example_pad (Joystick_init example_pad) = Inr j'
          \<and> axis j' ! 1 = float_literal 5 10 \<and> daxis j' ! 3 = 1 \<and> daxis j' ! 2 = 0)
   \<and> Joystick_updates [example_pad, example_pad, example_pad] (Joystick_init example_pad)
       = Inr \<lparr>buttons = [3],
              axis = [Float False 4503737070518400 (- 53), float_literal 5 10],
              daxis = [0, 3, 0, 3]\<rparr>
   \<and> Joystick_update resting_pad (Joystick_init example_pad)
       = Inr \<lparr>buttons = [0], axis = [Float False 0 0, Float False 0 0], daxis = [0, 0, 0, 0]\<rparr>"
proof -
  have h: "length (buttons (Joystick_init example_pad)) = length (button_states example_pad)"
    "length (axis (Joystick_init example_pad)) = length (axis_values example_pad)"
    "length (daxis (Joystick_init example_pad)) = 2 * length (axis_values example_pad)"
    "(1 :: nat) < length (axis_values example_pad)"
    "list_all (\<lambda>r. - 32768 \<le> r \<and> r \<le> 32767) (axis_values example_pad)"
    by (simp_all add: Joystick_init_def example_pad_def)
  have raw: "axis_values example_pad ! 1 = - 16384" by (simp add: example_pad_def)
  have old: "daxis (Joystick_init example_pad) ! 3 = 0" "daxis (Joystick_init example_pad) ! 2 = 0"
    by (simp_all add: Joystick_init_def example_pad_def eval_nat_numeral)
  have v: "axis_value 1 (- 16384) = Inr (float_literal 5 10)"
    "float_less (float_literal 333 1000) (float_literal 5 10) = True"
    "float_less (float_literal 5 10) (float_neg (float_literal 333 1000)) = False"
    by code_simp+
  have one: "\<exists>j'. Joystick_update example_pad (Joystick_init example_pad) = Inr j'
          \<and> axis j' ! 1 = float_literal 5 10 \<and> daxis j' ! 3 = 1 \<and> daxis j' ! 2 = 0"
    using Joystick_update_axis [OF h, THEN conjunct1] raw old v by auto
  have three: "Joystick_updates [example_pad, example_pad, example_pad] (Joystick_init example_pad)
       = Inr \<lparr>buttons = [3],
              axis = [Float False 4503737070518400 (- 53), float_literal 5 10],
              daxis = [0, 3, 0, 3]\<rparr>"
    by code_simp
  have rest: "Joystick_update resting_pad (Joystick_init example_pad)
       = Inr \<lparr>buttons = [0], axis = [Float False 0 0, Float False 0 0], daxis = [0, 0, 0, 0]\<rparr>"
    by code_simp
  show ?thesis using h raw v(1) one three rest by blast
qed


section \<open>Resource cache: hits\<close>

lemma Manager_get_cached:
  assumes "internal \<or> re_match_resource_name (py_lower (py_strip name))"
    and "map_of (cache st) (py_lower (py_strip name), more_key) = Some r"
  shows "Manager_get fs m st name more_key internal = (Inr r, st)"
  using assms by (auto simp add: Manager_get_def Let_def)

lemma Manager_get_success:
  assumes "Manager_get fs m st name more_key internal = (Inr r, st')"
  shows "(internal \<or> re_match_resource_name (py_lower (py_strip name)))
       \<and> map_of (cache st') (py_lower (py_strip name), more_key) = Some r"
  using assms
  by (auto simp add: Manager_get_def Let_def map_add_def
      split: if_splits option.splits sum.splits)

text \<open>A call never removes or replaces an entry of the cache.\<close>

lemma Manager_get_cache_grows:
  assumes "Manager_get fs m st name more_key internal = (res, st')"
  shows "cache st' = cache st \<or> (\<exists>k v. cache st' = cache st @ [(k, v)])"
  using assms
  by (simp add: Manager_get_def Let_def split: if_splits option.splits sum.splits) auto

lemma map_of_append_keeps:
  "map_of xs key = Some r \<Longrightarrow> map_of (xs @ [(k, v)]) key = Some r"
  by (simp add: map_add_def)

lemma Manager_get_keeps_entries:
  assumes "Manager_get fs m st name more_key internal = (res, st')"
    and "map_of (cache st) key = Some r"
  shows "map_of (cache st') key = Some r"
  using Manager_get_cache_grows [OF assms(1)] assms(2)
  by (auto simp del: map_of_append intro: map_of_append_keeps)

text \<open>After \<open>dispose\<close> the cache is empty, so the next \<open>get\<close> of a name is a miss.\<close>

lemma Manager_dispose_empties:
  "map_of (cache (Manager_dispose st)) key = None"
  by (simp add: Manager_dispose_def)

text \<open>
  C3.  When a call of \<open>get\<close> has returned a resource, a second call with the same name
  and extra arguments returns the same resource and leaves the state as it is: the cache
  is unchanged and nothing is added to the log of searches and loads.  So does a call
  with a name that differs in letter case or surrounding whitespace only, the key being
  the stripped and lowercased name with the extra arguments; and so does the second call
  when another call of \<open>get\<close>, for any name, has come between.
\<close>

theorem Manager_get_idempotent:
  assumes "Manager_get fs m st name more_key internal = (Inr r, st')"
    and "py_lower (py_strip name') = py_lower (py_strip name)"
    and "Manager_get fs m st' other other_key other_internal = (res, st'')"
  shows "Manager_get fs m st' name more_key internal = (Inr r, st')
       \<and> Manager_get fs m st' name' more_key internal = (Inr r, st')
       \<and> map_of (cache st') (py_lower (py_strip name), more_key) = Some r
       \<and> Manager_get fs m st'' name more_key internal = (Inr r, st'')"
proof -
  note ok = Manager_get_success [OF assms(1)]
  have same: "Manager_get fs m st' name more_key internal = (Inr r, st')"
    using ok by (intro Manager_get_cached) simp_all
  have other: "Manager_get fs m st' name' more_key internal = (Inr r, st')"
    using ok assms(2) by (intro Manager_get_cached) simp_all
  have kept: "map_of (cache st'') (py_lower (py_strip name), more_key) = Some r"
    using Manager_get_keeps_entries [OF assms(3)] ok by simp
  have later: "Manager_get fs m st'' name more_key internal = (Inr r, st'')"
    using ok kept by (intro Manager_get_cached) simp_all
  show ?thesis using same other ok later by simp
qed

theorem Manager_get_idempotent_witness:
  "Manager_get example_files example_images empty_state '' Hero '' [] False
     = (Inr ''image game/Hero.PNG'',
        \<lparr>cache = [((''hero'', []), ''image game/Hero.PNG'')],
         io_log = [Search ''hero'' IMAGE_EXTS, Search ''hero'' [''ini''],
                   LoadFile (''hero'', []) ''game/Hero.PNG'' (Some ''builtin/hero.ini'')]\<rparr>)
   \<and> py_lower (py_strip ''HERO'') = py_lower (py_strip '' Hero '')
   \<and> Manager_get example_files example_images
         \<lparr>cache = [((''hero'', []), ''image game/Hero.PNG'')],
          io_log = [Search ''hero'' IMAGE_EXTS, Search ''hero'' [''ini''],
                    LoadFile (''hero'', []) ''game/Hero.PNG'' (Some ''builtin/hero.ini'')]\<rparr>
         ''missing'' [] False
     = (Inl KeyError,
        \<lparr>cache = [((''hero'', []), ''image game/Hero.PNG'')],
         io_log = [Search ''hero'' IMAGE_EXTS, Search ''hero'' [''ini''],
                   LoadFile (''hero'', []) ''game/Hero.PNG'' (Some ''builtin/hero.ini''),
                   Search ''missing'' IMAGE_EXTS, Search ''missing'' [''ini'']]\<rparr>)
   \<and> Manager_get example_files example_images
         \<lparr>cache = [((''hero'', []), ''image game/Hero.PNG'')],
          io_log = [Search ''hero'' IMAGE_EXTS, Search ''hero'' [''ini''],
                    LoadFile (''hero'', []) ''game/Hero.PNG'' (Some ''builtin/hero.ini'')]\<rparr>
         ''HERO'' [] False
     = (Inr ''image game/Hero.PNG'',
        \<lparr>cache = [((''hero'', []), ''image game/Hero.PNG'')],
         io_log = [Search ''hero'' IMAGE_EXTS, Search ''hero'' [''ini''],
                   LoadFile (''hero'', []) ''game/Hero.PNG'' (Some ''builtin/hero.ini'')]\<rparr>)"
proof -
  have first: "Manager_get example_files example_images empty_state '' Hero '' [] False
     = (Inr ''image game/Hero.PNG'',
        \<lparr>cache = [((''hero'', []), ''image game/Hero.PNG'')],
         io_log = [Search ''hero'' IMAGE_EXTS, Search ''hero'' [''ini''],
                   LoadFile (''hero'', []) ''game/Hero.PNG'' (Some ''builtin/hero.ini'')]\<rparr>)"
    by code_simp
  have same: "py_lower (py_strip ''HERO'') = py_lower (py_strip '' Hero '')"
    by code_simp
  have between: "Manager_get example_files example_images
         \<lparr>cache = [((''hero'', []), ''image game/Hero.PNG'')],
          io_log = [Search ''hero'' IMAGE_EXTS, Search ''hero'' [''ini''],
                    LoadFile (''hero'', []) ''game/Hero.PNG'' (Some ''builtin/hero.ini'')]\<rparr>
         ''missing'' [] False
     = (Inl KeyError,
        \<lparr>cache = [((''hero'', []), ''image game/Hero.PNG'')],
         io_log = [Search ''hero'' IMAGE_EXTS, Search ''hero'' [''ini''],
                   LoadFile (''hero'', []) ''game/Hero.PNG'' (Some ''builtin/hero.ini''),
                   Search ''missing'' IMAGE_EXTS, Search ''missing'' [''ini'']]\<rparr>)"
    by code_simp
  show ?thesis
    using first same between Manager_get_idempotent [OF first same between] by blast
qed


section \<open>Resource cache: failures\<close>






text \<open>When the loader returns a false value, the statement that is to raise \<open>IOError\<close>
  reads the misspelt attribute \<open>reosurce_type\<close>, and the call ends in
  \<open>AttributeError\<close>.\<close>

lemma Manager_get_false_resource:
  assumes "re_match_resource_name (py_lower (py_strip name))"
    and "map_of (cache st) (py_lower (py_strip name), more_key) = None"
    and "find_resource fs (py_lower (py_strip name)) (file_types m) (resources_dirs fs)
           = Inr (Some path)"
    and "(if meta_file_types m \<noteq> []
          then find_resource fs (py_lower (py_strip name)) (meta_file_types m) (resources_dirs fs)
          else Inr None) = Inr meta"
    and "load_resource m (py_lower (py_strip name), more_key) path meta = Inr None"
  shows "fst (Manager_get fs m st name more_key False) = Inl AttributeError"
  using assms by (simp add: Manager_get_def Let_def split: if_splits)




end
